theory Spec2Isabelle
  imports Complex_Main
begin

section \<open>Calendar days and time values\<close>

text \<open>
  The pages work with three views of a date. The store keeps a calendar date (SQL
  \<^verbatim>\<open>DATE\<close>, sent to the page as the text \<^verbatim>\<open>YYYY-MM-DD\<close>); a JavaScript
  \<^verbatim>\<open>Date\<close> holds a time value, milliseconds since 1970-01-01T00:00Z; and the getters
  and setters of \<^verbatim>\<open>Date\<close> read that time value in the browser's local zone.

  A calendar date is represented by its day number (days since 1970-01-01), which is in
  one-to-one correspondence with the text \<^verbatim>\<open>YYYY-MM-DD\<close>; \<open>MakeDay y m d\<close> names
  the day number of year \<open>y\<close>, month index \<open>m\<close> (January is 0, as in
  \<^verbatim>\<open>getMonth()\<close>) and day \<open>d\<close>. The functions below follow the ECMAScript
  definitions of the same names.
\<close>

type_synonym time_value = int
type_synonym day_number = int

definition msPerDay :: int where
  "msPerDay = 86400000"

definition Day :: "time_value \<Rightarrow> day_number" where
  "Day t = t div msPerDay"

definition DayFromYear :: "int \<Rightarrow> day_number" where
  "DayFromYear y =
     365 * (y - 1970) + (y - 1969) div 4 - (y - 1901) div 100 + (y - 1601) div 400"

definition InLeapYear :: "int \<Rightarrow> bool" where
  "InLeapYear y =
     (if y mod 4 \<noteq> 0 then False else if y mod 100 \<noteq> 0 then True else y mod 400 = 0)"

definition DaysInMonth :: "int \<Rightarrow> int \<Rightarrow> int" where
  "DaysInMonth y m =
     (if m = 1 then (if InLeapYear y then 29 else 28)
      else if m = 3 \<or> m = 5 \<or> m = 8 \<or> m = 10 then 30
      else 31)"

definition DaysBeforeMonth :: "int \<Rightarrow> int \<Rightarrow> int" where
  "DaysBeforeMonth y m = sum_list (map (DaysInMonth y) [0..m - 1])"

definition MakeDay :: "int \<Rightarrow> int \<Rightarrow> int \<Rightarrow> day_number" where
  "MakeDay year month dt =
     (let ym = year + month div 12; mn = month mod 12
      in DayFromYear ym + DaysBeforeMonth ym mn + dt - 1)"

definition MakeDate :: "day_number \<Rightarrow> int \<Rightarrow> time_value" where
  "MakeDate day time = day * msPerDay + time"

text \<open>
  The browser: the signed-in user (\<^verbatim>\<open>supabase.auth.getUser()\<close>); its time zone,
  as ECMAScript's \<^verbatim>\<open>LocalTZA(t, isUTC)\<close>, the offset of local time from UTC in
  milliseconds that is in force at \<open>t\<close>, where \<open>t\<close> is a time value when
  \<open>isUTC\<close> holds and a local time otherwise (Brasilia is \<open>- 10800000\<close> at every
  \<open>t\<close>; a zone with summer time has two values); and the current instant as the
  local calendar fields that \<^verbatim>\<open>new Date()\<close> reports through
  \<^verbatim>\<open>getFullYear()\<close>, \<^verbatim>\<open>getMonth()\<close> (0 to 11), \<^verbatim>\<open>getDate()\<close> and the
  milliseconds since local midnight.
\<close>

record env =
  session_user :: "string option"
  LocalTZA :: "int \<Rightarrow> bool \<Rightarrow> int"
  now_year :: int
  now_month :: int
  now_date :: int
  now_ms_of_day :: int

definition LocalTime :: "env \<Rightarrow> time_value \<Rightarrow> int" where
  "LocalTime e t = t + LocalTZA e t True"

definition UTC :: "env \<Rightarrow> int \<Rightarrow> time_value" where
  "UTC e t = t - LocalTZA e t False"

text \<open>\<^verbatim>\<open>new Date()\<close>: the current instant.\<close>

definition Date_now :: "env \<Rightarrow> time_value" where
  "Date_now e =
     UTC e (MakeDate (MakeDay (now_year e) (now_month e) (now_date e)) (now_ms_of_day e))"

text \<open>
  \<^verbatim>\<open>new Date("YYYY-MM-DD")\<close>: a date-only text is read as midnight UTC of that day.
\<close>

definition Date_of_iso :: "day_number \<Rightarrow> time_value" where
  "Date_of_iso d = MakeDate d 0"

text \<open>\<^verbatim>\<open>new Date(year, monthIndex, day)\<close>, for a year of four digits: local midnight of that day.\<close>

definition Date_local :: "env \<Rightarrow> int \<Rightarrow> int \<Rightarrow> int \<Rightarrow> time_value" where
  "Date_local e year month dt = UTC e (MakeDate (MakeDay year month dt) 0)"

text \<open>\<^verbatim>\<open>d.setHours(0, 0, 0, 0)\<close>: midnight of the local day that holds \<open>t\<close>.\<close>

definition setHours0 :: "env \<Rightarrow> time_value \<Rightarrow> time_value" where
  "setHours0 e t = UTC e (MakeDate (Day (LocalTime e t)) 0)"

text \<open>\<^verbatim>\<open>d.toISOString().split('T')[0]\<close>: the UTC calendar day of \<open>t\<close>.\<close>

definition iso_date :: "time_value \<Rightarrow> day_number" where
  "iso_date t = Day t"

text \<open>date-fns \<^verbatim>\<open>isSameDay\<close>, \<^verbatim>\<open>startOfMonth\<close> and \<^verbatim>\<open>endOfMonth\<close> work in local time.\<close>

definition isSameDay :: "env \<Rightarrow> time_value \<Rightarrow> time_value \<Rightarrow> bool" where
  "isSameDay e a b = (Day (LocalTime e a) = Day (LocalTime e b))"

definition startOfMonth :: "env \<Rightarrow> time_value" where
  "startOfMonth e = UTC e (MakeDate (MakeDay (now_year e) (now_month e) 1) 0)"

definition endOfMonth :: "env \<Rightarrow> time_value" where
  "endOfMonth e =
     UTC e (MakeDate (MakeDay (now_year e) (now_month e + 1) 0) (msPerDay - 1))"

text \<open>The local calendar day of the current instant.\<close>

definition local_today :: "env \<Rightarrow> day_number" where
  "local_today e = Day (LocalTime e (Date_now e))"

section \<open>JavaScript numbers and text\<close>

text \<open>
  A JavaScript number: a finite one is given by its value, and the two zeros are one.
\<close>

datatype number = NaN | Finite rat | PosInfinity | NegInfinity

text \<open>
  The double nearest to a rational, ties to the even mantissa (IEEE 754 binary64). The
  doubles of the binade of \<open>v\<close> are the multiples of \<open>2 powi (e - 52)\<close>, where
  \<open>e\<close> is the exponent of \<open>v\<close>, not below \<open>- 1022\<close> (the subnormal numbers); a
  result of \<open>2 ^ 1024\<close> or more is an infinity.
\<close>

fun bitlen :: "nat \<Rightarrow> nat" where
  "bitlen n = (if n = 0 then 0 else Suc (bitlen (n div 2)))"

text \<open>The exponent of a positive rational: the floor of its binary logarithm.\<close>

definition floor_log2 :: "rat \<Rightarrow> int" where
  "floor_log2 v =
     (if 1 \<le> v then int (bitlen (nat \<lfloor>v\<rfloor>)) - 1
      else - int (bitlen (nat (\<lceil>1 / v\<rceil> - 1))))"

definition round_half_even :: "rat \<Rightarrow> int" where
  "round_half_even x =
     (let f = \<lfloor>x\<rfloor>; d = x - of_int f
      in if d < 1 / 2 then f
         else if 1 / 2 < d then f + 1
         else if even f then f else f + 1)"

definition to_double :: "rat \<Rightarrow> number" where
  "to_double v =
     (if v = 0 then Finite 0
      else
        let e = max (floor_log2 \<bar>v\<bar>) (- 1022);
            q = 2 powi (e - 52);
            n = round_half_even (\<bar>v\<bar> / q)
        in if 1024 \<le> e \<or> (e = 1023 \<and> n = 2 ^ 53)
           then (if 0 < v then PosInfinity else NegInfinity)
           else Finite (if 0 < v then of_int n * q else - (of_int n * q)))"

text \<open>\<^verbatim>\<open>a + b\<close> and \<^verbatim>\<open>a - b\<close> on numbers: the exact result, rounded to a double.\<close>

fun number_add :: "number \<Rightarrow> number \<Rightarrow> number" where
  "number_add NaN b = NaN"
| "number_add a NaN = NaN"
| "number_add PosInfinity NegInfinity = NaN"
| "number_add NegInfinity PosInfinity = NaN"
| "number_add PosInfinity b = PosInfinity"
| "number_add NegInfinity b = NegInfinity"
| "number_add a PosInfinity = PosInfinity"
| "number_add a NegInfinity = NegInfinity"
| "number_add (Finite a) (Finite b) = to_double (a + b)"

fun number_negate :: "number \<Rightarrow> number" where
  "number_negate NaN = NaN"
| "number_negate (Finite a) = Finite (- a)"
| "number_negate PosInfinity = NegInfinity"
| "number_negate NegInfinity = PosInfinity"

definition number_sub :: "number \<Rightarrow> number \<Rightarrow> number" where
  "number_sub a b = number_add a (number_negate b)"

text \<open>\<^verbatim>\<open>x || 0\<close> on a number: \<^verbatim>\<open>NaN\<close> and zero are falsy.\<close>

definition or_zero :: "number \<Rightarrow> number" where
  "or_zero x = (if x = NaN \<or> x = Finite 0 then Finite 0 else x)"

text \<open>
  What \<^verbatim>\<open>parseFloat\<close> returns is kept by its decimal value, with the limits of the
  range of the doubles (a magnitude of at most \<open>2 ^ - 1075\<close> rounds to zero, one of at
  least \<open>2 ^ 1024 - 2 ^ 970\<close> to an infinity): the sign, zero and finiteness are those
  of the double, and the decimal value is what the store receives, since the body's
  text of a double is the shortest decimal that reads back to it, which is the typed
  decimal for amounts of up to 15 significant digits.
\<close>

definition round_to_range :: "rat \<Rightarrow> number" where
  "round_to_range v =
     (if \<bar>v\<bar> \<le> 1 / 2 ^ 1075 then Finite 0
      else if 2 ^ 1024 - 2 ^ 970 \<le> \<bar>v\<bar> then (if 0 < v then PosInfinity else NegInfinity)
      else Finite v)"

text \<open>\<^verbatim>\<open>x <= 0\<close>: every comparison with \<^verbatim>\<open>NaN\<close> is false.\<close>

fun number_le_zero :: "number \<Rightarrow> bool" where
  "number_le_zero NaN = False"
| "number_le_zero (Finite v) = (v \<le> 0)"
| "number_le_zero PosInfinity = False"
| "number_le_zero NegInfinity = True"

text \<open>
  A character stands for a UTF-16 code unit below 256. White space and line terminators
  among these: tab, line feed, vertical tab, form feed, carriage return, space and the
  no-break space.
\<close>

definition is_space :: "char \<Rightarrow> bool" where
  "is_space c = (let n = (of_char c :: nat) in (9 \<le> n \<and> n \<le> 13) \<or> n = 32 \<or> n = 160)"

definition is_digit :: "char \<Rightarrow> bool" where
  "is_digit c = (let n = (of_char c :: nat) in 48 \<le> n \<and> n \<le> 57)"

definition digit_value :: "char \<Rightarrow> nat" where
  "digit_value c = (of_char c :: nat) - 48"

definition digits_value :: "string \<Rightarrow> nat" where
  "digits_value ds = foldl (\<lambda>a c. 10 * a + digit_value c) 0 ds"

text \<open>\<^verbatim>\<open>s.trim()\<close>\<close>

definition trim :: "string \<Rightarrow> string" where
  "trim s = rev (dropWhile is_space (rev (dropWhile is_space s)))"

text \<open>An optional sign in front of a numeral: whether it is a minus, and the rest.\<close>

fun take_sign :: "string \<Rightarrow> bool \<times> string" where
  "take_sign [] = (False, [])"
| "take_sign (c # cs) =
     (if c = CHR ''-'' then (True, cs)
      else if c = CHR ''+'' then (False, cs)
      else (False, c # cs))"

text \<open>
  The exponent part of a decimal literal, \<^verbatim>\<open>e\<close> or \<^verbatim>\<open>E\<close>, an optional sign and
  digits; it counts only when a digit follows.
\<close>

definition exponent_part :: "string \<Rightarrow> int" where
  "exponent_part r =
     (case r of
        [] \<Rightarrow> 0
      | c # cs \<Rightarrow>
          if c = CHR ''e'' \<or> c = CHR ''E'' then
            (let (neg, ds) = take_sign cs; ex = takeWhile is_digit ds
             in if ex = [] then 0
                else if neg then - int (digits_value ex) else int (digits_value ex))
          else 0)"

text \<open>
  \<^verbatim>\<open>parseFloat(s)\<close>: leading white space is skipped and the longest prefix that is a
  decimal literal is read; \<^verbatim>\<open>NaN\<close> when there is none.
\<close>

definition parseFloat :: "string \<Rightarrow> number" where
  "parseFloat s =
     (let (neg, u) = take_sign (dropWhile is_space s)
      in if take 8 u = ''Infinity'' then (if neg then NegInfinity else PosInfinity)
         else
           let ip = takeWhile is_digit u;
               r1 = dropWhile is_digit u;
               fp = (case r1 of [] \<Rightarrow> [] | c # cs \<Rightarrow>
                       if c = CHR ''.'' then takeWhile is_digit cs else []);
               r2 = (case r1 of [] \<Rightarrow> [] | c # cs \<Rightarrow>
                       if c = CHR ''.'' then dropWhile is_digit cs else r1)
           in if ip = [] \<and> fp = [] then NaN
              else
                let mant = of_nat (digits_value (ip @ fp)) / 10 ^ length fp;
                    v = mant * 10 powi exponent_part r2
                in round_to_range (if neg then - v else v))"

text \<open>
  \<^verbatim>\<open>parseInt(s)\<close> with no radix: leading white space is skipped, a sign is read, a
  prefix \<^verbatim>\<open>0x\<close> or \<^verbatim>\<open>0X\<close> selects radix 16, and the longest run of digits of the
  radix is read. \<open>None\<close> is \<^verbatim>\<open>NaN\<close> (no digit). A request body is JSON, which
  writes \<^verbatim>\<open>NaN\<close> as \<^verbatim>\<open>null\<close>, so \<open>None\<close> is also what the store receives.
\<close>

definition hex_value :: "char \<Rightarrow> nat option" where
  "hex_value c =
     (let n = (of_char c :: nat)
      in if 48 \<le> n \<and> n \<le> 57 then Some (n - 48)
         else if 65 \<le> n \<and> n \<le> 70 then Some (n - 55)
         else if 97 \<le> n \<and> n \<le> 102 then Some (n - 87)
         else None)"

definition is_hex_digit :: "char \<Rightarrow> bool" where
  "is_hex_digit c = (hex_value c \<noteq> None)"

definition hex_digits_value :: "string \<Rightarrow> nat" where
  "hex_digits_value ds = foldl (\<lambda>a c. 16 * a + (case hex_value c of None \<Rightarrow> 0 | Some v \<Rightarrow> v)) 0 ds"

definition parseInt :: "string \<Rightarrow> int option" where
  "parseInt s =
     (let (neg, u) = take_sign (dropWhile is_space s);
          hex = (take 2 u = ''0x'' \<or> take 2 u = ''0X'');
          ds = (if hex then takeWhile is_hex_digit (drop 2 u) else takeWhile is_digit u);
          n = (if hex then hex_digits_value ds else digits_value ds)
      in if ds = [] then None
         else Some (if neg then - int n else int n))"

section \<open>The store\<close>

text \<open>
  The tables of the migrations under \<^verbatim>\<open>supabase/migrations\<close>: categories,
  transactions (with the columns \<^verbatim>\<open>is_recurring\<close>, \<^verbatim>\<open>recurrence_day\<close> and
  \<^verbatim>\<open>status\<close> added by the second migration) and transaction attachments. The
  columns keep their names, but for \<^verbatim>\<open>id\<close> and \<^verbatim>\<open>type\<close>, which carry the
  table's initial. A user id is the text of a UUID; \<^verbatim>\<open>NUMERIC\<close> amounts are
  rationals; a nullable column is an option.

  The other declaration of the transactions table (\<^verbatim>\<open>CREATE TABLE IF NOT EXISTS
  public.transactions\<close>) has one more column, \<^verbatim>\<open>updated_at\<close>, with the trigger
  \<^verbatim>\<open>update_transactions_updated_at\<close>, which sets it to \<^verbatim>\<open>now()\<close> before every
  update of a row. The record has the column and the store below runs the trigger; a
  table without the column is this one with the column ignored.
\<close>

datatype txn_type = Expense | Income

datatype txn_status = Completed | Pending

record category =
  c_id :: int
  c_user_id :: string
  c_name :: string
  c_icon :: string
  c_type :: txn_type

record transaction =
  t_id :: int
  user_id :: string
  category_id :: "int option"
  description :: "string option"
  amount :: rat
  t_type :: txn_type
  date :: day_number
  created_at :: time_value
  updated_at :: time_value
  is_recurring :: bool
  recurrence_day :: "int option"
  status :: txn_status

record attachment =
  a_id :: int
  a_user_id :: string
  transaction_id :: int
  file_path :: string
  file_name :: string
  file_type :: string
  file_size :: nat
  attachment_month :: "int option"
  attachment_year :: "int option"

text \<open>A file picked in the browser (\<^verbatim>\<open>File\<close>): name, media type and size in bytes.\<close>

record js_file =
  f_name :: string
  f_type :: string
  f_size :: nat

text \<open>
  The store: the three tables, the blobs of the bucket \<^verbatim>\<open>transaction-attachments\<close>
  by path, and the next value of each id sequence.
\<close>

record db =
  categories_tbl :: "category list"
  transactions_tbl :: "transaction list"
  attachments_tbl :: "attachment list"
  bucket :: "(string \<times> js_file) list"
  categories_seq :: int
  transactions_seq :: int
  attachments_seq :: int

datatype db_error =
    invalid_input_syntax
  | not_null_violation
  | check_violation
  | foreign_key_violation
  | row_level_security

text \<open>
  The body of an insert or update of a transaction, as \<^verbatim>\<open>handleSubmit\<close> builds it
  (\<^verbatim>\<open>transactionData\<close>). The amount is a JavaScript number; the date is the form's
  text, \<open>None\<close> when empty.
\<close>

record transactionData =
  td_user_id :: string
  td_type :: txn_type
  td_category_id :: "int option"
  td_amount :: number
  td_description :: "string option"
  td_date :: "day_number option"
  td_is_recurring :: bool
  td_recurrence_day :: "int option"
  td_status :: txn_status

text \<open>
  What the store checks of such a body, from the table's declaration: the date column
  takes no empty text; \<^verbatim>\<open>amount NUMERIC NOT NULL\<close> (JSON writes \<^verbatim>\<open>NaN\<close> and the
  infinities as \<^verbatim>\<open>null\<close>); the row-level policy \<^verbatim>\<open>auth.uid() = user_id\<close>; the
  constraint \<^verbatim>\<open>transactions_recurrence_day_check\<close>; and the foreign key of
  \<^verbatim>\<open>category_id\<close>.
\<close>

definition recurrence_day_check :: "int option \<Rightarrow> bool" where
  "recurrence_day_check rd =
     (case rd of None \<Rightarrow> True | Some n \<Rightarrow> n \<ge> 1 \<and> n \<le> 31)"

definition category_exists :: "db \<Rightarrow> int option \<Rightarrow> bool" where
  "category_exists d c =
     (case c of None \<Rightarrow> True | Some i \<Rightarrow> list_ex (\<lambda>k. c_id k = i) (categories_tbl d))"

definition check_transaction :: "string option \<Rightarrow> db \<Rightarrow> transactionData \<Rightarrow> db_error option" where
  "check_transaction auth d td =
     (if td_date td = None then Some invalid_input_syntax
      else if (case td_amount td of Finite v \<Rightarrow> False | _ \<Rightarrow> True) then Some not_null_violation
      else if auth \<noteq> Some (td_user_id td) then Some row_level_security
      else if \<not> recurrence_day_check (td_recurrence_day td) then Some check_violation
      else if \<not> category_exists d (td_category_id td) then Some foreign_key_violation
      else None)"

definition number_value :: "number \<Rightarrow> rat" where
  "number_value n = (case n of Finite v \<Rightarrow> v | _ \<Rightarrow> 0)"

definition day_value :: "day_number option \<Rightarrow> day_number" where
  "day_value dt = (case dt of None \<Rightarrow> 0 | Some n \<Rightarrow> n)"

text \<open>
  \<^verbatim>\<open>.from("transactions").insert(transactionData)\<close>: the new row takes the next id of
  the sequence and the current instant as \<^verbatim>\<open>created_at\<close> and \<^verbatim>\<open>updated_at\<close>.
\<close>

definition insert_transaction :: "env \<Rightarrow> transactionData \<Rightarrow> db \<Rightarrow> db_error + db" where
  "insert_transaction e td d =
     (case check_transaction (session_user e) d td of
        Some err \<Rightarrow> Inl err
      | None \<Rightarrow>
          Inr (d\<lparr>transactions_tbl := transactions_tbl d @
                    [\<lparr>t_id = transactions_seq d,
                      user_id = td_user_id td,
                      category_id = td_category_id td,
                      description = td_description td,
                      amount = number_value (td_amount td),
                      t_type = td_type td,
                      date = day_value (td_date td),
                      created_at = Date_now e,
                      updated_at = Date_now e,
                      is_recurring = td_is_recurring td,
                      recurrence_day = td_recurrence_day td,
                      status = td_status td\<rparr>],
                 transactions_seq := transactions_seq d + 1\<rparr>))"

text \<open>
  \<^verbatim>\<open>.from("transactions").update(transactionData).eq("id", id)\<close>: the policy lets the
  statement see the caller's rows only; the rows it matches take the fields of the body,
  keep \<^verbatim>\<open>id\<close> and \<^verbatim>\<open>created_at\<close>, and get the current instant as
  \<^verbatim>\<open>updated_at\<close> from the trigger. A statement that matches no row changes nothing
  and is no error.
\<close>

definition update_row :: "env \<Rightarrow> transactionData \<Rightarrow> transaction \<Rightarrow> transaction" where
  "update_row e td r =
     r\<lparr>user_id := td_user_id td,
       category_id := td_category_id td,
       description := td_description td,
       amount := number_value (td_amount td),
       t_type := td_type td,
       date := day_value (td_date td),
       updated_at := Date_now e,
       is_recurring := td_is_recurring td,
       recurrence_day := td_recurrence_day td,
       status := td_status td\<rparr>"

definition update_transaction :: "env \<Rightarrow> int \<Rightarrow> transactionData \<Rightarrow> db \<Rightarrow> db_error + db" where
  "update_transaction e i td d =
     (let hit = (\<lambda>r. t_id r = i \<and> Some (user_id r) = session_user e)
      in if td_date td = None then Inl invalid_input_syntax
         else if \<not> list_ex hit (transactions_tbl d) then Inr d
         else case check_transaction (session_user e) d td of
                Some err \<Rightarrow> Inl err
              | None \<Rightarrow>
                  Inr (d\<lparr>transactions_tbl :=
                           map (\<lambda>r. if hit r then update_row e td r else r) (transactions_tbl d)\<rparr>))"

section \<open>Status derivation\<close>

text \<open>
  Lines 391 to 396 of the transaction form's \<^verbatim>\<open>handleSubmit\<close> (both versions of the
  form have the same text). The form's date is the value of a date input: empty
  (\<open>None\<close>, which makes an invalid \<^verbatim>\<open>Date\<close> that is greater than nothing) or a
  calendar date.
  \<^verbatim>\<open>
  const selectedDate = new Date(date);
  const today = new Date();
  today.setHours(0, 0, 0, 0);
  selectedDate.setHours(0, 0, 0, 0);
  const status = selectedDate > today ? "pending" : "completed";
  \<close>
\<close>

definition derive_status :: "env \<Rightarrow> day_number option \<Rightarrow> txn_status" where
  "derive_status e dt =
     (let selectedDate = map_option Date_of_iso dt;
          today = setHours0 e (Date_now e);
          selectedDate' = map_option (setHours0 e) selectedDate
      in case selectedDate' of
           None \<Rightarrow> Completed
         | Some s \<Rightarrow> if s > today then Pending else Completed)"

section \<open>The transaction form\<close>

text \<open>
  The state of \<^verbatim>\<open>TransactionModal\<close> that \<^verbatim>\<open>handleSubmit\<close>,
  \<^verbatim>\<open>handleFileSelect\<close> and \<^verbatim>\<open>handleUploadAttachment\<close> read: the fields of
  the form as the inputs hold them (text), the transaction being edited (the prop
  \<^verbatim>\<open>transaction\<close>, absent for a new one) and the file chosen for upload.
\<close>

record form =
  type_field :: txn_type
  categoryId :: string
  amount_field :: string
  description_field :: string
  date_field :: "day_number option"
  isRecurring :: bool
  recurrenceDay :: string
  transaction_prop :: "transaction option"
  selectedFile :: "js_file option"
  attachmentMonth :: string
  attachmentYear :: string

text \<open>The calls a handler sends to the store, in order, and the notices it shows.\<close>

datatype call =
    getUser
  | insert_transactions transactionData
  | update_transactions int transactionData
  | insert_categories string string string txn_type
  | update_categories int string string txn_type
  | delete_categories int
  | storage_upload string js_file
  | insert_transaction_attachments attachment

datatype toast =
    error_invalid_amount
  | error_saving_transaction
  | success_transaction_updated
  | success_transaction_added
  | error_category_name
  | error_saving_category
  | success_category_updated
  | success_category_created
  | error_deleting_category
  | success_category_deleted
  | error_file_too_large
  | error_no_file_selected
  | error_uploading_attachment
  | success_attachment_uploaded

record outcome =
  db_after :: db
  calls :: "call list"
  toasts :: "toast list"

text \<open>
  Lines 398 to 408 of \<^verbatim>\<open>handleSubmit\<close>:
  \<^verbatim>\<open>
  const transactionData = {
    user_id: user.user.id,
    type,
    category_id: categoryId ? parseInt(categoryId) : null,
    amount: parseFloat(amount),
    description: description.trim() || null,
    date,
    is_recurring: isRecurring,
    recurrence_day: isRecurring && recurrenceDay ? parseInt(recurrenceDay) : null,
    status,
  };
  \<close>
\<close>

definition build_transactionData :: "env \<Rightarrow> string \<Rightarrow> form \<Rightarrow> transactionData" where
  "build_transactionData e uid f =
     \<lparr>td_user_id = uid,
      td_type = type_field f,
      td_category_id = (if categoryId f \<noteq> [] then parseInt (categoryId f) else None),
      td_amount = parseFloat (amount_field f),
      td_description =
        (if trim (description_field f) \<noteq> [] then Some (trim (description_field f)) else None),
      td_date = date_field f,
      td_is_recurring = isRecurring f,
      td_recurrence_day =
        (if isRecurring f \<and> recurrenceDay f \<noteq> [] then parseInt (recurrenceDay f) else None),
      td_status = derive_status e (date_field f)\<rparr>"

text \<open>
  \<^verbatim>\<open>handleSubmit\<close> of the transaction form. The guard on the amount returns before
  anything else; a missing user or an error of the store is caught and shown as the
  same notice.
\<close>

definition handleSubmit :: "env \<Rightarrow> form \<Rightarrow> db \<Rightarrow> outcome" where
  "handleSubmit e f d =
     (if amount_field f = [] \<or> number_le_zero (parseFloat (amount_field f)) then
        \<lparr>db_after = d, calls = [], toasts = [error_invalid_amount]\<rparr>
      else
        case session_user e of
          None \<Rightarrow> \<lparr>db_after = d, calls = [getUser], toasts = [error_saving_transaction]\<rparr>
        | Some uid \<Rightarrow>
            let transactionData = build_transactionData e uid f
            in case transaction_prop f of
                 Some t \<Rightarrow>
                   (case update_transaction e (t_id t) transactionData d of
                      Inl err \<Rightarrow>
                        \<lparr>db_after = d,
                         calls = [getUser, update_transactions (t_id t) transactionData],
                         toasts = [error_saving_transaction]\<rparr>
                    | Inr d' \<Rightarrow>
                        \<lparr>db_after = d',
                         calls = [getUser, update_transactions (t_id t) transactionData],
                         toasts = [success_transaction_updated]\<rparr>)
               | None \<Rightarrow>
                   (case insert_transaction e transactionData d of
                      Inl err \<Rightarrow>
                        \<lparr>db_after = d,
                         calls = [getUser, insert_transactions transactionData],
                         toasts = [error_saving_transaction]\<rparr>
                    | Inr d' \<Rightarrow>
                        \<lparr>db_after = d',
                         calls = [getUser, insert_transactions transactionData],
                         toasts = [success_transaction_added]\<rparr>))"

text \<open>The bodies of the transaction writes among a handler's calls.\<close>

fun written :: "call list \<Rightarrow> transactionData list" where
  "written [] = []"
| "written (insert_transactions td # cs) = td # written cs"
| "written (update_transactions i td # cs) = td # written cs"
| "written (c # cs) = written cs"

section \<open>Attachments\<close>

text \<open>
  \<^verbatim>\<open>handleFileSelect\<close> (lines 265 to 275): the argument is
  \<^verbatim>\<open>e.target.files?.[0]\<close>, absent when the picker was closed with no file.
  \<^verbatim>\<open>
  if (file) {
    // Check file size (max 10MB)
    if (file.size > 10 * 1024 * 1024) {
      toast.error("Arquivo muito grande. Maximo 10MB.");
      return;
    }
    setSelectedFile(file);
  }
  \<close>
  The handler gets the form and returns it with the notices shown; it has no access to
  the store.
\<close>

definition handleFileSelect :: "js_file option \<Rightarrow> form \<Rightarrow> form \<times> toast list" where
  "handleFileSelect file f =
     (case file of
        None \<Rightarrow> (f, [])
      | Some fl \<Rightarrow>
          if f_size fl > 10 * 1024 * 1024 then (f, [error_file_too_large])
          else (f\<lparr>selectedFile := Some fl\<rparr>, []))"

text \<open>Decimal digits of a number, for \<^verbatim>\<open>Date.now()\<close> in a file path.\<close>

fun decimal :: "nat \<Rightarrow> string" where
  "decimal n =
     (if n < 10 then [char_of (48 + n)]
      else decimal (n div 10) @ [char_of (48 + n mod 10)])"

definition show_int :: "int \<Rightarrow> string" where
  "show_int i = (if i < 0 then CHR ''-'' # decimal (nat (- i)) else decimal (nat i))"

text \<open>\<^verbatim>\<open>name.split('.').pop()\<close>: the text after the last dot, the whole name without one.\<close>

definition file_ext :: "string \<Rightarrow> string" where
  "file_ext n = rev (takeWhile (\<lambda>c. c \<noteq> CHR ''.'') (rev n))"

text \<open>
  \<^verbatim>\<open>storage.from("transaction-attachments").upload(path, file)\<close>: the policy of the
  bucket wants the first folder of the path to be the caller's id, and a path is taken
  once.
\<close>

definition storage_upload_blob :: "env \<Rightarrow> string \<Rightarrow> js_file \<Rightarrow> db \<Rightarrow> db_error + db" where
  "storage_upload_blob e path fl d =
     (if session_user e \<noteq> Some (takeWhile (\<lambda>c. c \<noteq> CHR ''/'') path) then Inl row_level_security
      else if list_ex (\<lambda>b. fst b = path) (bucket d) then Inl check_violation
      else Inr (d\<lparr>bucket := bucket d @ [(path, fl)]\<rparr>))"

text \<open>
  \<^verbatim>\<open>.from("transaction_attachments").insert(...)\<close>: the row's id comes from the
  identity sequence; the transaction it names must exist.
\<close>

definition insert_attachment :: "env \<Rightarrow> attachment \<Rightarrow> db \<Rightarrow> db_error + db" where
  "insert_attachment e a d =
     (if session_user e \<noteq> Some (a_user_id a) then Inl row_level_security
      else if \<not> list_ex (\<lambda>t. t_id t = transaction_id a) (transactions_tbl d) then
        Inl foreign_key_violation
      else Inr (d\<lparr>attachments_tbl := attachments_tbl d @ [a\<lparr>a_id := attachments_seq d\<rparr>],
                 attachments_seq := attachments_seq d + 1\<rparr>))"

text \<open>
  \<^verbatim>\<open>handleUploadAttachment\<close> (lines 277 to 323): the blob first, then the row; the
  chosen file is cleared on success only.
\<close>

definition handleUploadAttachment :: "env \<Rightarrow> form \<Rightarrow> db \<Rightarrow> form \<times> outcome" where
  "handleUploadAttachment e f d =
     (case (selectedFile f, transaction_prop f) of
        (Some fl, Some t) \<Rightarrow>
          (case session_user e of
             None \<Rightarrow>
               (f, \<lparr>db_after = d, calls = [getUser], toasts = [error_uploading_attachment]\<rparr>)
           | Some uid \<Rightarrow>
               let fileExt = file_ext (f_name fl);
                   fileName = uid @ ''/'' @ show_int (Date_now e) @ ''.'' @ fileExt;
                   a = \<lparr>a_id = 0, a_user_id = uid, transaction_id = t_id t,
                        file_path = fileName, file_name = f_name fl, file_type = f_type fl,
                        file_size = f_size fl,
                        attachment_month =
                          (if isRecurring f then parseInt (attachmentMonth f) else None),
                        attachment_year =
                          (if isRecurring f then parseInt (attachmentYear f) else None)\<rparr>
               in case storage_upload_blob e fileName fl d of
                    Inl err \<Rightarrow>
                      (f, \<lparr>db_after = d, calls = [getUser, storage_upload fileName fl],
                           toasts = [error_uploading_attachment]\<rparr>)
                  | Inr d1 \<Rightarrow>
                      (case insert_attachment e a d1 of
                         Inl err \<Rightarrow>
                           (f, \<lparr>db_after = d1,
                                calls = [getUser, storage_upload fileName fl,
                                         insert_transaction_attachments a],
                                toasts = [error_uploading_attachment]\<rparr>)
                       | Inr d2 \<Rightarrow>
                           (f\<lparr>selectedFile := None\<rparr>,
                            \<lparr>db_after = d2,
                             calls = [getUser, storage_upload fileName fl,
                                      insert_transaction_attachments a],
                             toasts = [success_attachment_uploaded]\<rparr>)))
      | _ \<Rightarrow> (f, \<lparr>db_after = d, calls = [], toasts = [error_no_file_selected]\<rparr>))"

section \<open>Categories\<close>

text \<open>The state of the categories page that its handlers read.\<close>

record formData =
  name :: string
  icon :: string
  fd_type :: txn_type

record categories_page =
  formData :: formData
  editingCategory :: "category option"

definition insert_category :: "env \<Rightarrow> string \<Rightarrow> string \<Rightarrow> string \<Rightarrow> txn_type \<Rightarrow> db \<Rightarrow> db_error + db" where
  "insert_category e uid nm ic ty d =
     (if session_user e \<noteq> Some uid then Inl row_level_security
      else Inr (d\<lparr>categories_tbl := categories_tbl d @
                    [\<lparr>c_id = categories_seq d, c_user_id = uid, c_name = nm, c_icon = ic,
                      c_type = ty\<rparr>],
                 categories_seq := categories_seq d + 1\<rparr>))"

definition update_category :: "env \<Rightarrow> int \<Rightarrow> string \<Rightarrow> string \<Rightarrow> txn_type \<Rightarrow> db \<Rightarrow> db_error + db" where
  "update_category e i nm ic ty d =
     Inr (d\<lparr>categories_tbl :=
              map (\<lambda>c. if c_id c = i \<and> Some (c_user_id c) = session_user e
                        then c\<lparr>c_name := nm, c_icon := ic, c_type := ty\<rparr> else c)
                  (categories_tbl d)\<rparr>)"

text \<open>\<^verbatim>\<open>handleSubmit\<close> of the categories page (lines 87 to 131).\<close>

definition Categories_handleSubmit :: "env \<Rightarrow> categories_page \<Rightarrow> db \<Rightarrow> outcome" where
  "Categories_handleSubmit e p d =
     (let fd = formData p
      in if trim (name fd) = [] then
           \<lparr>db_after = d, calls = [], toasts = [error_category_name]\<rparr>
         else
           case session_user e of
             None \<Rightarrow> \<lparr>db_after = d, calls = [getUser], toasts = [error_saving_category]\<rparr>
           | Some uid \<Rightarrow>
               (case editingCategory p of
                  Some c \<Rightarrow>
                    (case update_category e (c_id c) (trim (name fd)) (icon fd) (fd_type fd) d of
                       Inl err \<Rightarrow>
                         \<lparr>db_after = d,
                          calls = [getUser,
                                   update_categories (c_id c) (trim (name fd)) (icon fd) (fd_type fd)],
                          toasts = [error_saving_category]\<rparr>
                     | Inr d' \<Rightarrow>
                         \<lparr>db_after = d',
                          calls = [getUser,
                                   update_categories (c_id c) (trim (name fd)) (icon fd) (fd_type fd)],
                          toasts = [success_category_updated]\<rparr>)
                | None \<Rightarrow>
                    (case insert_category e uid (trim (name fd)) (icon fd) (fd_type fd) d of
                       Inl err \<Rightarrow>
                         \<lparr>db_after = d,
                          calls = [getUser,
                                   insert_categories uid (trim (name fd)) (icon fd) (fd_type fd)],
                          toasts = [error_saving_category]\<rparr>
                     | Inr d' \<Rightarrow>
                         \<lparr>db_after = d',
                          calls = [getUser,
                                   insert_categories uid (trim (name fd)) (icon fd) (fd_type fd)],
                          toasts = [success_category_created]\<rparr>)))"

text \<open>
  Deleting a category. The tables declare what happens to the rows that refer to a
  deleted row:
  \<^verbatim>\<open>category_id BIGINT REFERENCES public.categories(id) ON DELETE SET NULL\<close> for
  transactions, and
  \<^verbatim>\<open>transaction_id bigint NOT NULL REFERENCES public.transactions(id) ON DELETE CASCADE\<close>
  for attachments.
\<close>

datatype fk_action = no_action | cascade | set_null

definition transactions_category_id_on_delete :: fk_action where
  "transactions_category_id_on_delete = set_null"

definition attachments_transaction_id_on_delete :: fk_action where
  "attachments_transaction_id_on_delete = cascade"

text \<open>
  Deleting the transactions that satisfy \<open>P\<close>, with the action declared for the
  attachments that refer to them.
\<close>

definition delete_transactions_where :: "(transaction \<Rightarrow> bool) \<Rightarrow> db \<Rightarrow> db_error + db" where
  "delete_transactions_where P d =
     (let gone = map t_id (filter P (transactions_tbl d));
          kept = filter (\<lambda>t. \<not> P t) (transactions_tbl d);
          refers = (\<lambda>a. List.member gone (transaction_id a))
      in case attachments_transaction_id_on_delete of
           cascade \<Rightarrow>
             Inr (d\<lparr>transactions_tbl := kept,
                    attachments_tbl := filter (\<lambda>a. \<not> refers a) (attachments_tbl d)\<rparr>)
         | set_null \<Rightarrow> Inl not_null_violation
         | no_action \<Rightarrow>
             if list_ex refers (attachments_tbl d) then Inl foreign_key_violation
             else Inr (d\<lparr>transactions_tbl := kept\<rparr>))"

text \<open>
  \<^verbatim>\<open>.from("categories").delete().eq("id", id)\<close>: the policy lets the statement see
  the caller's categories only; the declared action is applied to every transaction that
  refers to the deleted category. \<^verbatim>\<open>SET NULL\<close> is an update of the referring rows,
  so the trigger on updates runs on them.
\<close>

definition delete_category :: "env \<Rightarrow> int \<Rightarrow> db \<Rightarrow> db_error + db" where
  "delete_category e i d =
     (let hit = (\<lambda>c. c_id c = i \<and> Some (c_user_id c) = session_user e);
          refers = (\<lambda>t. category_id t = Some i)
      in if \<not> list_ex hit (categories_tbl d) then Inr d
         else
           let d1 = d\<lparr>categories_tbl := filter (\<lambda>c. \<not> hit c) (categories_tbl d)\<rparr>
           in case transactions_category_id_on_delete of
                set_null \<Rightarrow>
                  Inr (d1\<lparr>transactions_tbl :=
                            map (\<lambda>t. if refers t
                                      then t\<lparr>category_id := None, updated_at := Date_now e\<rparr>
                                      else t)
                                (transactions_tbl d)\<rparr>)
              | cascade \<Rightarrow> delete_transactions_where refers d1
              | no_action \<Rightarrow>
                  if list_ex refers (transactions_tbl d) then Inl foreign_key_violation
                  else Inr d1)"

text \<open>
  \<^verbatim>\<open>handleDelete\<close> of the categories page (lines 133 to 149); \<open>confirmed\<close> is the
  answer to the browser's \<^verbatim>\<open>confirm\<close> dialog.
\<close>

definition handleDelete :: "env \<Rightarrow> bool \<Rightarrow> int \<Rightarrow> db \<Rightarrow> outcome" where
  "handleDelete e confirmed i d =
     (if \<not> confirmed then \<lparr>db_after = d, calls = [], toasts = []\<rparr>
      else case delete_category e i d of
             Inl err \<Rightarrow>
               \<lparr>db_after = d, calls = [delete_categories i], toasts = [error_deleting_category]\<rparr>
           | Inr d' \<Rightarrow>
               \<lparr>db_after = d', calls = [delete_categories i], toasts = [success_category_deleted]\<rparr>)"

section \<open>Aggregation views\<close>

text \<open>
  A select on \<^verbatim>\<open>transactions\<close>: the policy shows the caller's rows, the filters of
  the query choose among them. The store answers every call (a failure of the network is
  not modelled), so a response always has its data; the handlers' treatment of absent
  data is kept where they reduce it.
\<close>

definition select_transactions :: "env \<Rightarrow> (transaction \<Rightarrow> bool) \<Rightarrow> db \<Rightarrow> transaction list" where
  "select_transactions e P d =
     filter (\<lambda>t. Some (user_id t) = session_user e \<and> P t) (transactions_tbl d)"

text \<open>
  The reduction both summaries use, on the \<^verbatim>\<open>data\<close> of a response (absent when
  the response has none):
  \<^verbatim>\<open>
  data?.filter(t => t.type === ty)
       .reduce((sum, t) => sum + Number(t.amount), 0) || 0
  \<close>
  The amount of a row reaches the page as a JSON number, which is read as the nearest
  double, and \<^verbatim>\<open>+\<close> is the addition of doubles.
\<close>

definition total_of_type :: "txn_type \<Rightarrow> ('a transaction_scheme) list option \<Rightarrow> number" where
  "total_of_type ty data =
     (case data of
        None \<Rightarrow> Finite 0
      | Some ts \<Rightarrow>
          or_zero
            (foldl (\<lambda>sum t. number_add sum (to_double (amount t))) (Finite 0)
               (filter (\<lambda>t. t_type t = ty) ts)))"

text \<open>
  \<^verbatim>\<open>BalanceSummary\<close>: the state \<^verbatim>\<open>income\<close> and \<^verbatim>\<open>expenses\<close>, zero at first,
  and \<^verbatim>\<open>const balance = income - expenses\<close>.
\<close>

record balance_summary =
  income :: number
  expenses :: number

definition initial_balance_summary :: balance_summary where
  "initial_balance_summary = \<lparr>income = Finite 0, expenses = Finite 0\<rparr>"

definition balance :: "balance_summary \<Rightarrow> number" where
  "balance st = number_sub (income st) (expenses st)"

text \<open>The rows \<^verbatim>\<open>fetchMonthlyData\<close> asks for (lines 17 to 29).\<close>

definition monthly_rows :: "env \<Rightarrow> string \<Rightarrow> db \<Rightarrow> transaction list" where
  "monthly_rows e uid d =
     (let firstDay = Date_local e (now_year e) (now_month e) 1;
          lastDay = Date_local e (now_year e) (now_month e + 1) 0
      in select_transactions e
           (\<lambda>t. user_id t = uid \<and> date t \<ge> iso_date firstDay \<and> date t \<le> iso_date lastDay) d)"

text \<open>The reduction of \<^verbatim>\<open>fetchMonthlyData\<close> (lines 33 to 42) on the response's data.\<close>

definition monthly_totals :: "('a transaction_scheme) list option \<Rightarrow> balance_summary" where
  "monthly_totals transactions =
     (let totalIncome = total_of_type Income transactions;
          totalExpenses = total_of_type Expense transactions
      in \<lparr>income = totalIncome, expenses = totalExpenses\<rparr>)"

definition fetchMonthlyData :: "env \<Rightarrow> db \<Rightarrow> balance_summary \<Rightarrow> balance_summary" where
  "fetchMonthlyData e d st =
     (case session_user e of
        None \<Rightarrow> st
      | Some uid \<Rightarrow> monthly_totals (Some (monthly_rows e uid d)))"

text \<open>\<^verbatim>\<open>PendingSummary\<close> and its \<^verbatim>\<open>fetchPendingTransactions\<close> (lines 43 to 72).\<close>

record PendingData =
  totalExpenses :: number
  totalIncome :: number
  count :: nat

definition pending_rows :: "env \<Rightarrow> string \<Rightarrow> db \<Rightarrow> transaction list" where
  "pending_rows e uid d =
     select_transactions e (\<lambda>t. user_id t = uid \<and> status t = Pending) d"

definition pending_totals :: "('a transaction_scheme) list option \<Rightarrow> PendingData" where
  "pending_totals data =
     (let expenses = total_of_type Expense data;
          income = total_of_type Income data
      in \<lparr>totalExpenses = expenses, totalIncome = income,
          count = (case data of None \<Rightarrow> 0 | Some ts \<Rightarrow> length ts)\<rparr>)"

definition fetchPendingTransactions :: "env \<Rightarrow> db \<Rightarrow> PendingData \<Rightarrow> PendingData" where
  "fetchPendingTransactions e d st =
     (case session_user e of
        None \<Rightarrow> st
      | Some uid \<Rightarrow> pending_totals (Some (pending_rows e uid d)))"

text \<open>
  Vocabulary for the totals. The sum of a list of amounts taken as the page takes it:
  from zero, left to right, each amount read as a double and each addition rounded to a
  double. And a list whose sum is exact in that arithmetic: every amount and every
  partial sum, left to right, is a double.
\<close>

fun rounded_sum_from :: "number \<Rightarrow> rat list \<Rightarrow> number" where
  "rounded_sum_from s [] = s"
| "rounded_sum_from s (a # as) = rounded_sum_from (number_add s (to_double a)) as"

definition rounded_sum :: "rat list \<Rightarrow> number" where
  "rounded_sum as = rounded_sum_from (Finite 0) as"

fun sums_exact_from :: "rat \<Rightarrow> rat list \<Rightarrow> bool" where
  "sums_exact_from s [] = True"
| "sums_exact_from s (a # as) =
     (to_double a = Finite a \<and> to_double (s + a) = Finite (s + a) \<and>
      sums_exact_from (s + a) as)"

definition sums_exact :: "rat list \<Rightarrow> bool" where
  "sums_exact as = sums_exact_from 0 as"

section \<open>Recurrence projector\<close>

text \<open>
  The calendar page asks for \<^verbatim>\<open>*, categories (name, icon)\<close>: a row of the response
  is a transaction with the name and icon of its category, when it has one the caller
  may see.
\<close>

record row = transaction +
  categories :: "(string \<times> string) option"

definition with_categories :: "env \<Rightarrow> db \<Rightarrow> transaction \<Rightarrow> row" where
  "with_categories e d t =
     transaction.extend t
       (row.fields
          (case category_id t of
             None \<Rightarrow> None
           | Some i \<Rightarrow>
               map_option (\<lambda>c. (c_name c, c_icon c))
                 (find (\<lambda>c. c_id c = i \<and> Some (c_user_id c) = session_user e)
                    (categories_tbl d))))"

text \<open>
  The two queries of \<^verbatim>\<open>fetchTransactions\<close> (lines 62 to 97). The first is ordered
  by date, latest first; rows of one date keep the table's order here.
\<close>

definition regular_rows :: "env \<Rightarrow> string \<Rightarrow> db \<Rightarrow> row list" where
  "regular_rows e uid d =
     (let firstDay = startOfMonth e;
          lastDay = endOfMonth e
      in map (with_categories e d)
           (sort_key (\<lambda>t. - date t)
              (select_transactions e
                 (\<lambda>t. user_id t = uid \<and> date t \<ge> iso_date firstDay \<and> date t \<le> iso_date lastDay)
                 d)))"

definition recurring_rows :: "env \<Rightarrow> string \<Rightarrow> db \<Rightarrow> row list" where
  "recurring_rows e uid d =
     map (with_categories e d)
       (select_transactions e
          (\<lambda>t. user_id t = uid \<and> is_recurring t = True \<and> recurrence_day t \<noteq> None) d)"

text \<open>
  The body of the \<^verbatim>\<open>forEach\<close> (lines 104 to 122): what one recurring row adds to
  \<^verbatim>\<open>allTransactions\<close>.
  \<^verbatim>\<open>
  const recurrenceDay = recurring.recurrence_day;
  if (recurrenceDay) {
    const recurringDate = new Date(now.getFullYear(), now.getMonth(), recurrenceDay);
    // Check if this specific occurrence already exists
    const alreadyExists = regularData?.some(t =>
      t.id === recurring.id &&
      isSameDay(new Date(t.date), recurringDate)
    );
    if (!alreadyExists) {
      // Add a virtual instance of the recurring transaction for this month
      allTransactions.push({
        ...recurring,
        date: recurringDate.toISOString().split('T')[0]
      });
    }
  }
  \<close>
\<close>

definition virtual_instance :: "env \<Rightarrow> row list option \<Rightarrow> row \<Rightarrow> row list" where
  "virtual_instance e regularData recurring =
     (case recurrence_day recurring of
        None \<Rightarrow> []
      | Some recurrenceDay' \<Rightarrow>
          if recurrenceDay' = 0 then []
          else
            let recurringDate = Date_local e (now_year e) (now_month e) recurrenceDay';
                alreadyExists =
                  (case regularData of
                     None \<Rightarrow> False
                   | Some ts \<Rightarrow>
                       list_ex (\<lambda>t. t_id t = t_id recurring \<and>
                                      isSameDay e (Date_of_iso (date t)) recurringDate) ts)
            in if \<not> alreadyExists then [recurring\<lparr>date := iso_date recurringDate\<rparr>]
               else [])"

text \<open>
  Lines 100 to 123: \<^verbatim>\<open>allTransactions\<close> starts as a copy of the month's rows, and the
  loop pushes to it.
\<close>

definition projectRecurring :: "env \<Rightarrow> row list option \<Rightarrow> row list option \<Rightarrow> row list" where
  "projectRecurring e regularData recurringData =
     (let allTransactions = (case regularData of None \<Rightarrow> [] | Some ts \<Rightarrow> ts)
      in case recurringData of
           None \<Rightarrow> allTransactions
         | Some rs \<Rightarrow>
             if length rs > 0
             then foldl (\<lambda>acc recurring. acc @ virtual_instance e regularData recurring)
                    allTransactions rs
             else allTransactions)"

text \<open>
  \<^verbatim>\<open>fetchTransactions\<close>: the page's \<^verbatim>\<open>transactions\<close> after the call; without a
  signed-in user the state stays as it was.
\<close>

definition fetchTransactions :: "env \<Rightarrow> db \<Rightarrow> row list \<Rightarrow> row list" where
  "fetchTransactions e d st =
     (case session_user e of
        None \<Rightarrow> st
      | Some uid \<Rightarrow>
          projectRecurring e (Some (regular_rows e uid d)) (Some (recurring_rows e uid d)))"

text \<open>
  Vocabulary for the properties of the projector: the rows the loop added (what follows
  the month's rows in the output), the rows with a given id, and a row being dated on
  the calendar day \<open>d\<close> of month index \<open>m\<close> of year \<open>y\<close>.
\<close>

definition synthesized :: "env \<Rightarrow> row list option \<Rightarrow> row list option \<Rightarrow> row list" where
  "synthesized e regularData recurringData =
     drop (length (case regularData of None \<Rightarrow> [] | Some ts \<Rightarrow> ts))
       (projectRecurring e regularData recurringData)"



text \<open>
  Vocabulary for the attachment size limit: a file within the limit, and a form whose
  chosen file, if any, is within it.
\<close>

definition size_ok :: "js_file \<Rightarrow> bool" where
  "size_ok fl = (f_size fl \<le> 10 * 1024 * 1024)"

definition selection_ok :: "form \<Rightarrow> bool" where
  "selection_ok f = (case selectedFile f of None \<Rightarrow> True | Some fl \<Rightarrow> size_ok fl)"

section \<open>Concrete inputs\<close>

text \<open>
  Browsers at noon of a day of 2025, signed in as the same user: in a zone at UTC the
  whole year, in Brasilia (three hours west of UTC the whole year), and in London, where
  summer time, one hour east of UTC, ran from 2025-03-30T01:00Z to 2025-10-26T01:00Z
  (local times from 02:00 of the first day up to 02:00 of the last).
\<close>

definition utc_november :: env where
  "utc_november =
     \<lparr>session_user = Some ''u1'', LocalTZA = (\<lambda>t isUTC. 0), now_year = 2025,
      now_month = 10, now_date = 10, now_ms_of_day = 43200000\<rparr>"

definition brasilia_november :: env where
  "brasilia_november =
     \<lparr>session_user = Some ''u1'', LocalTZA = (\<lambda>t isUTC. - 10800000), now_year = 2025,
      now_month = 10, now_date = 10, now_ms_of_day = 43200000\<rparr>"

definition brasilia_october :: env where
  "brasilia_october =
     \<lparr>session_user = Some ''u1'', LocalTZA = (\<lambda>t isUTC. - 10800000), now_year = 2025,
      now_month = 9, now_date = 17, now_ms_of_day = 43200000\<rparr>"

definition london_october :: env where
  "london_october =
     \<lparr>session_user = Some ''u1'',
      LocalTZA = (\<lambda>t isUTC.
        if isUTC then (if 1743296400000 \<le> t \<and> t < 1761440400000 then 3600000 else 0)
        else (if 1743300000000 \<le> t \<and> t < 1761444000000 then 3600000 else 0)),
      now_year = 2025, now_month = 9, now_date = 28, now_ms_of_day = 43200000\<rparr>"

text \<open>
  Stored transactions of that user: a salary and groceries of early November 2025; a
  rent that recurs on day 5, stored on 2025-11-05; a subscription that recurs on day 5,
  stored on 2025-10-05; a gym fee that recurs on day 5, stored on 2025-09-05; a fee that
  recurs on day 31, stored on 2025-10-31; a bonus still pending; and two pending
  expenses of 0.10 and 0.20 of November 2025.
\<close>

definition salary :: transaction where
  "salary =
     \<lparr>t_id = 1, user_id = ''u1'', category_id = Some 1, description = None, amount = 3000,
      t_type = Income, date = MakeDay 2025 10 3, created_at = 0, updated_at = 0,
      is_recurring = False, recurrence_day = None, status = Completed\<rparr>"

definition groceries :: transaction where
  "groceries =
     \<lparr>t_id = 2, user_id = ''u1'', category_id = Some 2, description = Some ''market'',
      amount = 401 / 2, t_type = Expense, date = MakeDay 2025 10 4, created_at = 0,
      updated_at = 0, is_recurring = False, recurrence_day = None, status = Completed\<rparr>"

definition rent :: transaction where
  "rent =
     \<lparr>t_id = 7, user_id = ''u1'', category_id = None, description = Some ''rent'',
      amount = 1000, t_type = Expense, date = MakeDay 2025 10 5, created_at = 0,
      updated_at = 0, is_recurring = True, recurrence_day = Some 5, status = Completed\<rparr>"

definition subscription :: transaction where
  "subscription =
     \<lparr>t_id = 9, user_id = ''u1'', category_id = None, description = Some ''music'',
      amount = 20, t_type = Expense, date = MakeDay 2025 9 5, created_at = 0,
      updated_at = 0, is_recurring = True, recurrence_day = Some 5, status = Completed\<rparr>"

definition gym :: transaction where
  "gym =
     \<lparr>t_id = 10, user_id = ''u1'', category_id = None, description = Some ''gym'',
      amount = 30, t_type = Expense, date = MakeDay 2025 8 5, created_at = 0,
      updated_at = 0, is_recurring = True, recurrence_day = Some 5, status = Completed\<rparr>"

definition fee :: transaction where
  "fee =
     \<lparr>t_id = 8, user_id = ''u1'', category_id = None, description = Some ''fee'',
      amount = 15, t_type = Expense, date = MakeDay 2025 9 31, created_at = 0,
      updated_at = 0, is_recurring = True, recurrence_day = Some 31, status = Completed\<rparr>"

definition bonus :: transaction where
  "bonus =
     \<lparr>t_id = 3, user_id = ''u1'', category_id = Some 1, description = None, amount = 500,
      t_type = Income, date = MakeDay 2026 0 15, created_at = 0, updated_at = 0,
      is_recurring = False, recurrence_day = None, status = Pending\<rparr>"

definition coffee :: transaction where
  "coffee =
     \<lparr>t_id = 4, user_id = ''u1'', category_id = Some 2, description = Some ''coffee'',
      amount = 1 / 10, t_type = Expense, date = MakeDay 2025 10 20, created_at = 0,
      updated_at = 0, is_recurring = False, recurrence_day = None, status = Pending\<rparr>"

definition bread :: transaction where
  "bread =
     \<lparr>t_id = 5, user_id = ''u1'', category_id = Some 2, description = Some ''bread'',
      amount = 2 / 10, t_type = Expense, date = MakeDay 2025 10 21, created_at = 0,
      updated_at = 0, is_recurring = False, recurrence_day = None, status = Pending\<rparr>"

definition food :: category where
  "food = \<lparr>c_id = 2, c_user_id = ''u1'', c_name = ''Food'', c_icon = ''restaurant'',
            c_type = Expense\<rparr>"

definition wages :: category where
  "wages = \<lparr>c_id = 1, c_user_id = ''u1'', c_name = ''Wages'', c_icon = ''work'',
             c_type = Income\<rparr>"

text \<open>A store holding the two categories and the given transactions.\<close>

definition ledger :: "transaction list \<Rightarrow> db" where
  "ledger ts =
     \<lparr>categories_tbl = [wages, food], transactions_tbl = ts, attachments_tbl = [],
      bucket = [], categories_seq = 3, transactions_seq = 100, attachments_seq = 1\<rparr>"

text \<open>The transaction form as it opens for a new transaction, but for the date.\<close>

definition blank_form :: form where
  "blank_form =
     \<lparr>type_field = Expense, categoryId = [], amount_field = [], description_field = [],
      date_field = None, isRecurring = False, recurrenceDay = [], transaction_prop = None,
      selectedFile = None, attachmentMonth = [], attachmentYear = []\<rparr>"

text \<open>An income of 500 dated 2025-10-18, the day after \<open>brasilia_october\<close>'s today.\<close>

definition income_tomorrow :: form where
  "income_tomorrow =
     blank_form\<lparr>type_field := Income, amount_field := ''500'',
                date_field := Some (MakeDay 2025 9 18)\<rparr>"

text \<open>A recurring expense whose day-of-month field was left empty.\<close>

definition recurring_without_day :: form where
  "recurring_without_day =
     blank_form\<lparr>amount_field := ''100'', date_field := Some (MakeDay 2025 9 17),
                isRecurring := True\<rparr>"

text \<open>A recurring expense on day 5.\<close>

definition recurring_on_day_5 :: form where
  "recurring_on_day_5 =
     blank_form\<lparr>amount_field := ''100'', date_field := Some (MakeDay 2025 9 17),
                isRecurring := True, recurrenceDay := ''5''\<rparr>"

text \<open>A form with a negative amount, and a categories page with a blank name.\<close>

definition negative_amount :: form where
  "negative_amount = blank_form\<lparr>amount_field := ''-5''\<rparr>"

definition blank_name :: categories_page where
  "blank_name =
     \<lparr>formData = \<lparr>name = ''   '', icon = ''category'', fd_type = Expense\<rparr>,
      editingCategory = None\<rparr>"

text \<open>The form opened on the stored rent, with no file chosen.\<close>

definition editing_rent :: form where
  "editing_rent = blank_form\<lparr>transaction_prop := Some rent\<rparr>"

text \<open>A photo of 11 MB and a receipt of 2 MB.\<close>

definition big_photo :: js_file where
  "big_photo = \<lparr>f_name = ''photo.png'', f_type = ''image/png'', f_size = 11 * 1024 * 1024\<rparr>"

definition receipt :: js_file where
  "receipt = \<lparr>f_name = ''receipt.pdf'', f_type = ''application/pdf'', f_size = 2 * 1024 * 1024\<rparr>"
section \<open>Evaluation and arithmetic of days\<close>

lemmas calendar_eval =
  MakeDay_def DayFromYear_def DaysBeforeMonth_def DaysInMonth_def InLeapYear_def upto.simps
  MakeDate_def Day_def msPerDay_def UTC_def LocalTime_def Date_local_def
  Date_of_iso_def Date_now_def setHours0_def iso_date_def isSameDay_def startOfMonth_def
  endOfMonth_def local_today_def

lemma Day_MakeDate0: "Day (MakeDate d 0) = d"
  by (simp add: Day_def MakeDate_def msPerDay_def)

lemma Day_MakeDate:
  assumes "0 \<le> t" "t < msPerDay"
  shows "Day (MakeDate n t) = n"
proof -
  have "(n * 86400000 + t) div 86400000 = n"
    using assms by (simp add: msPerDay_def div_pos_pos_trivial)
  then show ?thesis by (simp add: Day_def MakeDate_def msPerDay_def)
qed

lemma Day_shift_east:
  assumes "0 \<le> z" "z < msPerDay"
  shows "Day (MakeDate n 0 + z) = n"
  using Day_MakeDate [OF assms, of n] by (simp add: MakeDate_def)

lemma Day_shift_west:
  assumes "- msPerDay < z" "z < 0"
  shows "Day (MakeDate n 0 + z) = n - 1"
proof -
  have "0 \<le> msPerDay + z" "msPerDay + z < msPerDay"
    using assms by simp_all
  from Day_MakeDate [OF this, of "n - 1"] show ?thesis
    by (simp add: MakeDate_def algebra_simps)
qed







lemmas inputs_eval =
  utc_november_def brasilia_november_def brasilia_october_def london_october_def salary_def
  groceries_def rent_def subscription_def gym_def fee_def bonus_def coffee_def bread_def
  food_def wages_def ledger_def blank_form_def income_tomorrow_def recurring_without_day_def
  recurring_on_day_5_def negative_amount_def blank_name_def big_photo_def receipt_def
  editing_rent_def

lemmas text_eval =
  is_space_def is_digit_def digit_value_def digits_value_def trim_def exponent_part_def
  hex_value_def is_hex_digit_def hex_digits_value_def parseInt_def

section \<open>Lemmas on the zone\<close>

text \<open>
  What the date-only text and the local calendar do to each other: a date read with
  \<^verbatim>\<open>new Date("YYYY-MM-DD")\<close> falls on the previous local day where the zone is west
  of UTC, and the text of a local midnight is the previous day where it is east of UTC.
\<close>

lemma local_day_of_iso_date:
  assumes "- msPerDay < LocalTZA e (Date_of_iso n) True" "LocalTZA e (Date_of_iso n) True < msPerDay"
  shows "Day (LocalTime e (Date_of_iso n)) =
     (if 0 \<le> LocalTZA e (Date_of_iso n) True then n else n - 1)"
  using assms Day_shift_east [of "LocalTZA e (Date_of_iso n) True" n]
    Day_shift_west [of "LocalTZA e (Date_of_iso n) True" n]
  by (simp add: LocalTime_def Date_of_iso_def)

lemma iso_date_of_local_midnight:
  assumes "- msPerDay < LocalTZA e (MakeDate (MakeDay y m k) 0) False"
    "LocalTZA e (MakeDate (MakeDay y m k) 0) False < msPerDay"
  shows "iso_date (Date_local e y m k) =
     (if 0 < LocalTZA e (MakeDate (MakeDay y m k) 0) False then MakeDay y m k - 1
      else MakeDay y m k)"
proof -
  let ?z = "LocalTZA e (MakeDate (MakeDay y m k) 0) False"
  have "Day (MakeDate (MakeDay y m k) 0 + (- ?z)) =
      (if 0 < ?z then MakeDay y m k - 1 else MakeDay y m k)"
    using assms Day_shift_east [of "- ?z" "MakeDay y m k"]
      Day_shift_west [of "- ?z" "MakeDay y m k"]
    by auto
  then show ?thesis
    by (simp add: iso_date_def Date_local_def UTC_def)
qed

text \<open>The status the form derives, in a zone of one offset \<open>z\<close> the whole year.\<close>

lemma derive_status_by_zone:
  assumes fixed: "\<And>t u. LocalTZA e t u = z" and range: "- msPerDay < z" "z < msPerDay"
  shows "derive_status e (Some n) =
     (if (if 0 \<le> z then n else n - 1) > local_today e then Pending else Completed)"
proof -
  have today: "setHours0 e (Date_now e) = MakeDate (local_today e) 0 - z"
    by (simp add: setHours0_def UTC_def local_today_def fixed)
  have sel: "setHours0 e (Date_of_iso n) = MakeDate (if 0 \<le> z then n else n - 1) 0 - z"
    using range local_day_of_iso_date [of e n]
    by (simp add: setHours0_def UTC_def fixed)
  show ?thesis
    by (simp add: derive_status_def Let_def today sel MakeDate_def msPerDay_def)
qed

text \<open>
  The projector's check for a stored occurrence, in a zone of one offset the whole year:
  at UTC and east of it the check is the one its comment names.
\<close>

lemma isSameDay_by_zone:
  assumes fixed: "\<And>t u. LocalTZA e t u = z" and range: "- msPerDay < z" "z < msPerDay"
  shows "isSameDay e (Date_of_iso n) (Date_local e y m k) =
     ((if 0 \<le> z then n else n - 1) = MakeDay y m k)"
  using range local_day_of_iso_date [of e n]
  by (simp add: isSameDay_def Date_local_def UTC_def LocalTime_def fixed Day_MakeDate0)

lemma no_virtual_instance_when_stored_east_of_utc:
  assumes fixed: "\<And>t u. LocalTZA e t u = z" and range: "0 \<le> z" "z < msPerDay"
    and "recurrence_day t = Some k"
    and "list_ex (\<lambda>r. t_id r = t_id t \<and> date r = MakeDay (now_year e) (now_month e) k) regs"
  shows "virtual_instance e (Some regs) t = []"
proof -
  have "\<And>n y m k. isSameDay e (Date_of_iso n) (Date_local e y m k) = (n = MakeDay y m k)"
    using isSameDay_by_zone [of e z] fixed range by simp
  with assms(4,5) show ?thesis
    by (simp add: virtual_instance_def Let_def)
qed

text \<open>The month's rows hold every stored transaction of the user dated in the viewed month.\<close>

lemma month_rows_complete:
  assumes zone: "\<And>t u. - msPerDay < LocalTZA e t u \<and> LocalTZA e t u < msPerDay"
    and user: "session_user e = Some uid"
    and t: "t \<in> set (transactions_tbl d)" "user_id t = uid"
    and month: "MakeDay (now_year e) (now_month e) 1 \<le> date t"
               "date t \<le> MakeDay (now_year e) (now_month e + 1) 0"
  shows "with_categories e d t \<in> set (regular_rows e uid d)"
proof -
  let ?F = "MakeDay (now_year e) (now_month e) 1"
  let ?L = "MakeDay (now_year e) (now_month e + 1) 0"
  have "iso_date (startOfMonth e) = iso_date (Date_local e (now_year e) (now_month e) 1)"
    by (simp add: startOfMonth_def Date_local_def)
  then have first: "iso_date (startOfMonth e) \<le> ?F"
    using iso_date_of_local_midnight [of e "now_year e" "now_month e" 1] zone
    by (simp split: if_splits)
  let ?z = "LocalTZA e (MakeDate ?L (msPerDay - 1)) False"
  have "endOfMonth e = MakeDate ?L (msPerDay - 1 - ?z)"
    by (simp add: endOfMonth_def UTC_def MakeDate_def)
  moreover have "0 \<le> msPerDay - 1 - ?z"
    using zone [of "MakeDate ?L (msPerDay - 1)" False] by simp
  ultimately have last: "?L \<le> iso_date (endOfMonth e)"
    by (simp add: iso_date_def Day_def MakeDate_def msPerDay_def)
  show ?thesis
    using user t month first last
    by (simp add: regular_rows_def Let_def select_transactions_def)
qed

section \<open>Lemmas on the projector\<close>









lemma with_categories_sel [simp]:
  "t_id (with_categories e d t) = t_id t"
  "user_id (with_categories e d t) = user_id t"
  "category_id (with_categories e d t) = category_id t"
  "description (with_categories e d t) = description t"
  "amount (with_categories e d t) = amount t"
  "t_type (with_categories e d t) = t_type t"
  "date (with_categories e d t) = date t"
  "created_at (with_categories e d t) = created_at t"
  "updated_at (with_categories e d t) = updated_at t"
  "is_recurring (with_categories e d t) = is_recurring t"
  "recurrence_day (with_categories e d t) = recurrence_day t"
  "status (with_categories e d t) = status t"
  by (simp_all add: with_categories_def transaction.defs)






lemmas projector_eval =
  fetchTransactions_def projectRecurring_def regular_rows_def recurring_rows_def
  synthesized_def select_transactions_def virtual_instance_def with_categories_def
  transaction.defs row.defs

text \<open>
  In London on 2025-10-28, a gym fee that recurs on day 5 gets its occurrence dated
  2025-10-04: the local midnight of 5 October was in summer time, 23:00 of 4 October
  at UTC.
\<close>

lemma day_5_dated_on_day_4_in_london:
  "fetchTransactions london_october (ledger [gym]) [] =
     [(with_categories london_october (ledger [gym]) gym)\<lparr>date := MakeDay 2025 9 4\<rparr>]"
  by (simp add: projector_eval inputs_eval calendar_eval)

section \<open>Evaluation of numbers\<close>

lemma bitlen_numeral:
  "bitlen 0 = 0"
  "bitlen (Suc 0) = Suc 0"
  "bitlen (numeral Num.One) = Suc 0"
  "bitlen (numeral (Num.Bit0 k)) = Suc (bitlen (numeral k))"
  "bitlen (numeral (Num.Bit1 k)) = Suc (bitlen (numeral k))"
proof -
  show "bitlen 0 = 0" "bitlen (Suc 0) = Suc 0" "bitlen (numeral Num.One) = Suc 0"
    by simp_all
  have "(numeral (Num.Bit0 k) :: nat) div 2 = numeral k"
    by simp
  moreover have "(numeral (Num.Bit0 k) :: nat) \<noteq> 0" by simp
  ultimately show "bitlen (numeral (Num.Bit0 k)) = Suc (bitlen (numeral k))"
    by (subst bitlen.simps) (simp only: if_False)
  have "(numeral (Num.Bit1 k) :: nat) div 2 = numeral k"
    by simp
  moreover have "(numeral (Num.Bit1 k) :: nat) \<noteq> 0" by simp
  ultimately show "bitlen (numeral (Num.Bit1 k)) = Suc (bitlen (numeral k))"
    by (subst bitlen.simps) (simp only: if_False)
qed

declare bitlen.simps [simp del]

lemma powi_numeral:
  "(x::rat) powi (- numeral k) = 1 / x ^ numeral k"
  "(x::rat) powi (- 1) = 1 / x"
  by (simp_all add: power_int_minus inverse_eq_divide)

lemma floor_rat_numeral:
  "\<lfloor>(numeral a :: rat) / numeral b\<rfloor> = numeral a div numeral b"
  using floor_divide_of_int_eq [of "numeral a" "numeral b", where ?'a = rat] by simp

lemma ceiling_rat_numeral:
  "\<lceil>(numeral a :: rat) / numeral b\<rceil> = - (- numeral a div numeral b)"
  using floor_divide_of_int_eq [of "- numeral a" "numeral b", where ?'a = rat]
  by (simp add: ceiling_def)

lemmas double_eval =
  to_double_def floor_log2_def round_half_even_def bitlen_numeral Let_def powi_numeral
  floor_rat_numeral ceiling_rat_numeral

lemma or_zero_Finite: "or_zero (Finite x) = Finite x"
  by (simp add: or_zero_def)

text \<open>The doubles nearest to 0.1, 0.2 and 0.3, and the double that 0.1 + 0.2 gives.\<close>

lemma to_double_cents:
  "to_double (1 / 10) = Finite (3602879701896397 / 36028797018963968)"
  "to_double (1 / 5) = Finite (3602879701896397 / 18014398509481984)"
  "to_double (3 / 10) = Finite (5404319552844595 / 18014398509481984)"
  by (simp_all add: double_eval)

lemma rounded_sum_cents:
  "rounded_sum [1 / 10, 1 / 5] = Finite (1351079888211149 / 4503599627370496)"
  by (simp add: rounded_sum_def double_eval)

lemma to_double_amounts:
  "to_double 3000 = Finite 3000"
  "to_double (401 / 2) = Finite (401 / 2)"
  "to_double 1000 = Finite 1000"
  "to_double (2401 / 2) = Finite (2401 / 2)"
  "to_double (3599 / 2) = Finite (3599 / 2)"
  "to_double 500 = Finite 500"
  by (simp_all add: double_eval)

text \<open>A parsed amount of ordinary size is its decimal value.\<close>

lemma round_to_range_ordinary:
  assumes "1 / 1000000 \<le> \<bar>v\<bar>" and "\<bar>v\<bar> \<le> 1000000000000000"
  shows "round_to_range v = Finite v"
proof -
  have "(1::rat) / 2 ^ 1075 < 1 / 1000000" by simp
  moreover have "(1000000000000000::rat) < 2 ^ 1024 - 2 ^ 970" by simp
  ultimately show ?thesis using assms by (simp add: round_to_range_def)
qed

lemma parseFloat_500: "parseFloat ''500'' = Finite 500"
  by (simp add: parseFloat_def text_eval round_to_range_ordinary)

lemma parseFloat_100: "parseFloat ''100'' = Finite 100"
  by (simp add: parseFloat_def text_eval round_to_range_ordinary)

lemma parseFloat_minus_5: "parseFloat ''-5'' = Finite (- 5)"
  by (simp add: parseFloat_def text_eval round_to_range_ordinary)

section \<open>Lemmas on the views, the forms and the store\<close>

lemma foldl_rounded_sum:
  "foldl (\<lambda>sum t. number_add sum (to_double (amount t))) s ts =
     rounded_sum_from s (map amount ts)"
  by (induction ts arbitrary: s) simp_all

lemma total_of_type_rounded:
  "total_of_type ty (Some ts) =
     or_zero (rounded_sum (map amount (filter (\<lambda>t. t_type t = ty) ts)))"
  by (simp add: total_of_type_def foldl_rounded_sum rounded_sum_def)

lemma rounded_sum_from_exact:
  "sums_exact_from s as \<Longrightarrow> rounded_sum_from (Finite s) as = Finite (s + sum_list as)"
  by (induction as arbitrary: s) (simp_all add: add.assoc)

lemma rounded_sum_exact:
  "sums_exact as \<Longrightarrow> or_zero (rounded_sum as) = Finite (sum_list as)"
  using rounded_sum_from_exact [of 0 as]
  by (simp add: sums_exact_def rounded_sum_def or_zero_Finite)

lemma number_sub_Finite:
  "number_sub (Finite a) (Finite b) = to_double (a - b)"
  by (simp add: number_sub_def)

lemma filter_select_transactions:
  "filter Q (select_transactions e P d) =
     filter (\<lambda>t. Some (user_id t) = session_user e \<and> P t \<and> Q t) (transactions_tbl d)"
  by (auto simp: select_transactions_def intro: filter_cong)

lemma delete_category_set_null:
  assumes "list_ex (\<lambda>c. c_id c = i \<and> Some (c_user_id c) = session_user e) (categories_tbl d)"
  shows "delete_category e i d =
     Inr (d\<lparr>categories_tbl :=
              filter (\<lambda>c. \<not> (c_id c = i \<and> Some (c_user_id c) = session_user e)) (categories_tbl d),
            transactions_tbl :=
              map (\<lambda>t. if category_id t = Some i
                        then t\<lparr>category_id := None, updated_at := Date_now e\<rparr> else t)
                (transactions_tbl d)\<rparr>)"
  using assms
  by (simp add: delete_category_def Let_def transactions_category_id_on_delete_def)

lemma upload_blobs:
  "set (bucket (db_after (snd (handleUploadAttachment e f d)))) \<subseteq>
     set (bucket d) \<union> {b. selectedFile f = Some (snd b)}"
  by (auto simp: handleUploadAttachment_def Let_def storage_upload_blob_def insert_attachment_def
      split: option.splits sum.splits if_splits)

lemma upload_rows:
  "set (map file_size (attachments_tbl (db_after (snd (handleUploadAttachment e f d))))) \<subseteq>
     set (map file_size (attachments_tbl d)) \<union> {n. \<exists>fl. selectedFile f = Some fl \<and> n = f_size fl}"
  by (auto simp: handleUploadAttachment_def Let_def storage_upload_blob_def insert_attachment_def
      split: option.splits sum.splits if_splits)

lemma check_transaction_recurrence_day:
  "check_transaction a d td = None \<Longrightarrow> recurrence_day_check (td_recurrence_day td)"
  by (simp add: check_transaction_def split: if_splits)

lemma build_recurrence_day:
  "td_recurrence_day (build_transactionData e uid f) =
     (if isRecurring f \<and> recurrenceDay f \<noteq> [] then parseInt (recurrenceDay f) else None)"
  "td_is_recurring (build_transactionData e uid f) = isRecurring f"
  "td_status (build_transactionData e uid f) = derive_status e (date_field f)"
  by (simp_all add: build_transactionData_def)

lemma written_handleSubmit:
  "td \<in> set (written (calls (handleSubmit e f d))) \<Longrightarrow>
     \<exists>uid. session_user e = Some uid \<and> td = build_transactionData e uid f"
  by (auto simp: handleSubmit_def Let_def split: if_splits option.splits sum.splits)

lemma rows_handleSubmit:
  assumes "r \<in> set (transactions_tbl (db_after (handleSubmit e f d)))"
    and "r \<notin> set (transactions_tbl d)"
  shows "\<exists>uid. session_user e = Some uid \<and>
           check_transaction (session_user e) d (build_transactionData e uid f) = None \<and>
           is_recurring r = td_is_recurring (build_transactionData e uid f) \<and>
           recurrence_day r = td_recurrence_day (build_transactionData e uid f) \<and>
           status r = td_status (build_transactionData e uid f)"
  using assms
  by (auto simp: handleSubmit_def Let_def insert_transaction_def update_transaction_def
      update_row_def split: if_splits option.splits sum.splits)

lemmas submit_eval =
  handleSubmit_def build_transactionData_def derive_status_def insert_transaction_def
  update_transaction_def update_row_def check_transaction_def recurrence_day_check_def
  category_exists_def number_value_def day_value_def

section \<open>C1: status derivation\<close>

text \<open>
  C1 says that the status written by the transaction form is \<^verbatim>\<open>pending\<close> exactly
  when the transaction's date is after the current date. The code does not do so west
  of UTC. In Brasilia at noon of 2025-10-17, an income dated 2025-10-18 is saved with
  status \<^verbatim>\<open>completed\<close>: \<^verbatim>\<open>new Date("2025-10-18")\<close> is midnight UTC, which is
  21:00 of 2025-10-17 in Brasilia, and \<^verbatim>\<open>setHours(0, 0, 0, 0)\<close> moves it to the
  local midnight of 2025-10-17, which is not after today's. The lemma
  \<open>derive_status_by_zone\<close> gives the status in every zone of one offset the whole
  year.
\<close>

theorem future_date_saved_as_completed_west_of_utc:
  "date_field income_tomorrow = Some (MakeDay 2025 9 18) \<and>
   local_today brasilia_october = MakeDay 2025 9 17 \<and>
   iso_date (Date_now brasilia_october) = MakeDay 2025 9 17 \<and>
   MakeDay 2025 9 17 < MakeDay 2025 9 18 \<and>
   derive_status brasilia_october (Some (MakeDay 2025 9 18)) = Completed \<and>
   map td_status
     (written (calls (handleSubmit brasilia_october income_tomorrow (ledger [])))) = [Completed] \<and>
   map status (transactions_tbl (db_after
     (handleSubmit brasilia_october income_tomorrow (ledger [])))) = [Completed] \<and>
   map date (transactions_tbl (db_after
     (handleSubmit brasilia_october income_tomorrow (ledger [])))) = [MakeDay 2025 9 18] \<and>
   toasts (handleSubmit brasilia_october income_tomorrow (ledger [])) =
     [success_transaction_added]"
  by (simp add: submit_eval income_tomorrow_def blank_form_def brasilia_october_def ledger_def
      parseFloat_500 calendar_eval)

section \<open>C2: one virtual occurrence for a template\<close>




section \<open>C3: no second occurrence for a stored one\<close>

text \<open>
  C3 says that the output is the month's rows, unmodified, plus the virtual occurrences,
  and that no virtual occurrence is added for a template that has a stored transaction
  with its id on the projected date. The first half holds (\<open>projectRecurring_append\<close>,
  \<open>month_rows_complete\<close>), and so does the second at UTC and east of it
  (\<open>no_virtual_instance_when_stored_east_of_utc\<close>). West of UTC the code adds the
  occurrence all the same: in Brasilia, in November 2025, a rent stored on 2025-11-05
  that recurs on day 5 is in the page's transactions twice, both rows dated 2025-11-05,
  because \<^verbatim>\<open>isSameDay(new Date(t.date), recurringDate)\<close> compares the local day of
  midnight UTC, 2025-11-04, with 2025-11-05.
\<close>

theorem stored_occurrence_counted_twice_west_of_utc:
  "is_recurring rent \<and> recurrence_day rent = Some 5 \<and> date rent = MakeDay 2025 10 5 \<and>
   now_year brasilia_november = 2025 \<and> now_month brasilia_november = 10 \<and>
   regular_rows brasilia_november ''u1'' (ledger [rent]) =
     [with_categories brasilia_november (ledger [rent]) rent] \<and>
   fetchTransactions brasilia_november (ledger [rent]) [] =
     [with_categories brasilia_november (ledger [rent]) rent,
      (with_categories brasilia_november (ledger [rent]) rent)\<lparr>date := MakeDay 2025 10 5\<rparr>] \<and>
   map t_id (fetchTransactions brasilia_november (ledger [rent]) []) = [7, 7] \<and>
   map date (fetchTransactions brasilia_november (ledger [rent]) []) =
     [MakeDay 2025 10 5, MakeDay 2025 10 5]"
  by (simp add: fetchTransactions_def projectRecurring_def regular_rows_def recurring_rows_def
      select_transactions_def virtual_instance_def with_categories_def transaction.defs row.defs
      inputs_eval calendar_eval)

section \<open>C4: monthly balance\<close>

text \<open>
  C4, as the code has it. For every list of transactions, the reduction of the monthly
  balance view gives as income the sum of the amounts of the transactions of type income
  taken in the arithmetic of doubles (from zero, in the order of the list, each amount
  read as the nearest double and each addition rounded to the nearest double), as
  expenses the same sum over the transactions of type expense, and as balance the first
  minus the second, rounded likewise. Where every amount and every partial sum of a type
  is a double, the total of that type is the exact sum of the amounts; where this holds
  of both types and the difference of the two sums is a double, the balance is the exact
  difference. For the empty list all three are zero. \<^verbatim>\<open>fetchMonthlyData\<close> applies
  the reduction to the rows it gets for the period.
\<close>

theorem monthly_balance_in_double_arithmetic:
  "income (monthly_totals (Some ts)) =
     or_zero (rounded_sum (map amount (filter (\<lambda>t. t_type t = Income) ts))) \<and>
   expenses (monthly_totals (Some ts)) =
     or_zero (rounded_sum (map amount (filter (\<lambda>t. t_type t = Expense) ts))) \<and>
   balance (monthly_totals (Some ts)) =
     number_sub (income (monthly_totals (Some ts))) (expenses (monthly_totals (Some ts))) \<and>
   (sums_exact (map amount (filter (\<lambda>t. t_type t = Income) ts)) \<longrightarrow>
      income (monthly_totals (Some ts)) =
        Finite (sum_list (map amount (filter (\<lambda>t. t_type t = Income) ts)))) \<and>
   (sums_exact (map amount (filter (\<lambda>t. t_type t = Expense) ts)) \<longrightarrow>
      expenses (monthly_totals (Some ts)) =
        Finite (sum_list (map amount (filter (\<lambda>t. t_type t = Expense) ts)))) \<and>
   (sums_exact (map amount (filter (\<lambda>t. t_type t = Income) ts)) \<and>
    sums_exact (map amount (filter (\<lambda>t. t_type t = Expense) ts)) \<and>
    to_double (sum_list (map amount (filter (\<lambda>t. t_type t = Income) ts)) -
               sum_list (map amount (filter (\<lambda>t. t_type t = Expense) ts))) =
      Finite (sum_list (map amount (filter (\<lambda>t. t_type t = Income) ts)) -
              sum_list (map amount (filter (\<lambda>t. t_type t = Expense) ts))) \<longrightarrow>
      balance (monthly_totals (Some ts)) =
        Finite (sum_list (map amount (filter (\<lambda>t. t_type t = Income) ts)) -
                sum_list (map amount (filter (\<lambda>t. t_type t = Expense) ts)))) \<and>
   income (monthly_totals (Some ([] :: transaction list))) = Finite 0 \<and>
   expenses (monthly_totals (Some ([] :: transaction list))) = Finite 0 \<and>
   balance (monthly_totals (Some ([] :: transaction list))) = Finite 0 \<and>
   (session_user e = Some uid \<longrightarrow>
      fetchMonthlyData e d st = monthly_totals (Some (monthly_rows e uid d)))"
proof -
  have totals: "income (monthly_totals (Some ts)) =
      or_zero (rounded_sum (map amount (filter (\<lambda>t. t_type t = Income) ts)))"
    "expenses (monthly_totals (Some ts)) =
      or_zero (rounded_sum (map amount (filter (\<lambda>t. t_type t = Expense) ts)))"
    by (simp_all add: monthly_totals_def total_of_type_rounded)
  have diff: "balance (monthly_totals (Some ts)) =
      number_sub (income (monthly_totals (Some ts))) (expenses (monthly_totals (Some ts)))"
    by (simp add: balance_def)
  have exact: "sums_exact (map amount (filter (\<lambda>t. t_type t = ty) ts)) \<Longrightarrow>
      or_zero (rounded_sum (map amount (filter (\<lambda>t. t_type t = ty) ts))) =
      Finite (sum_list (map amount (filter (\<lambda>t. t_type t = ty) ts)))" for ty
    by (rule rounded_sum_exact)
  have empty: "income (monthly_totals (Some ([] :: transaction list))) = Finite 0"
    "expenses (monthly_totals (Some ([] :: transaction list))) = Finite 0"
    "balance (monthly_totals (Some ([] :: transaction list))) = Finite 0"
    by (simp_all add: monthly_totals_def total_of_type_def or_zero_def balance_def
        number_sub_def to_double_def)
  have view: "session_user e = Some uid \<Longrightarrow>
      fetchMonthlyData e d st = monthly_totals (Some (monthly_rows e uid d))"
    by (simp add: fetchMonthlyData_def)
  show ?thesis
    using totals diff exact [of Income] exact [of Expense] empty view
    by (simp add: number_sub_Finite)
qed

text \<open>
  The theorem in November 2025 with a salary of 3000, groceries of 200.50, a rent of 1000
  and a bonus dated in January (outside the period).
\<close>

theorem monthly_balance_in_double_arithmetic_witness:
  "session_user utc_november = Some ''u1'' \<and>
   monthly_rows utc_november ''u1'' (ledger [salary, groceries, rent, bonus]) =
     [salary, groceries, rent] \<and>
   fetchMonthlyData utc_november (ledger [salary, groceries, rent, bonus])
       initial_balance_summary =
     monthly_totals (Some (monthly_rows utc_november ''u1''
       (ledger [salary, groceries, rent, bonus]))) \<and>
   sums_exact (map amount (filter (\<lambda>t. t_type t = Income) [salary, groceries, rent])) \<and>
   sums_exact (map amount (filter (\<lambda>t. t_type t = Expense) [salary, groceries, rent])) \<and>
   to_double (3599 / 2) = Finite (3599 / 2) \<and>
   income (monthly_totals (Some [salary, groceries, rent])) = Finite 3000 \<and>
   expenses (monthly_totals (Some [salary, groceries, rent])) = Finite (2401 / 2) \<and>
   balance (monthly_totals (Some [salary, groceries, rent])) = Finite (3599 / 2)"
proof -
  let ?d = "ledger [salary, groceries, rent, bonus]"
  let ?ts = "[salary, groceries, rent]"
  have user: "session_user utc_november = Some ''u1''"
    by (simp add: utc_november_def)
  have rows: "monthly_rows utc_november ''u1'' ?d = ?ts"
    by (simp add: monthly_rows_def select_transactions_def inputs_eval calendar_eval)
  have amounts:
    "map amount (filter (\<lambda>t. t_type t = Income) ?ts) = [3000]"
    "map amount (filter (\<lambda>t. t_type t = Expense) ?ts) = [401 / 2, 1000]"
    by (simp_all add: salary_def groceries_def rent_def)
  have exact: "sums_exact [3000]" "sums_exact [401 / 2, 1000]"
    by (simp_all add: sums_exact_def to_double_amounts)
  have diff: "to_double (3599 / 2) = Finite (3599 / 2)"
    by (simp add: to_double_amounts)
  note inst = monthly_balance_in_double_arithmetic
    [of ?ts utc_november "''u1''" ?d initial_balance_summary, unfolded amounts]
  from inst user have view: "fetchMonthlyData utc_november ?d initial_balance_summary =
      monthly_totals (Some (monthly_rows utc_november ''u1'' ?d))"
    by blast
  from inst have a: "sums_exact [3000] \<longrightarrow>
      income (monthly_totals (Some ?ts)) = Finite (sum_list [3000])"
    and b: "sums_exact [401 / 2, 1000] \<longrightarrow>
      expenses (monthly_totals (Some ?ts)) = Finite (sum_list [401 / 2, 1000])"
    and c: "sums_exact [3000] \<and> sums_exact [401 / 2, 1000] \<and>
      to_double (sum_list [3000] - sum_list [401 / 2, 1000]) =
        Finite (sum_list [3000] - sum_list [401 / 2, 1000]) \<longrightarrow>
      balance (monthly_totals (Some ?ts)) =
        Finite (sum_list [3000] - sum_list [401 / 2, 1000])"
    by blast+
  from a exact have inc: "income (monthly_totals (Some ?ts)) = Finite 3000"
    by simp
  from b exact have exp: "expenses (monthly_totals (Some ?ts)) = Finite (2401 / 2)"
    by simp
  from c exact diff have bal: "balance (monthly_totals (Some ?ts)) = Finite (3599 / 2)"
    by simp
  from user rows view exact diff inc exp bal show ?thesis
    by (simp only: amounts)
qed

text \<open>
  C4 as stated fails, since the totals are sums of doubles: in November 2025 with two
  expenses of 0.10 and 0.20, whose amounts add up to 0.30, the view's expenses are
  \<^verbatim>\<open>0.1 + 0.2 = 0.30000000000000004\<close>, which is neither 3/10 nor the double nearest
  to it, and the balance is its negative.
\<close>

theorem monthly_expenses_of_ten_and_twenty_cents:
  "monthly_rows utc_november ''u1'' (ledger [coffee, bread]) = [coffee, bread] \<and>
   map amount (filter (\<lambda>t. t_type t = Expense) [coffee, bread]) = [1 / 10, 2 / 10] \<and>
   sum_list (map amount (filter (\<lambda>t. t_type t = Expense) [coffee, bread])) = 3 / 10 \<and>
   expenses (fetchMonthlyData utc_november (ledger [coffee, bread]) initial_balance_summary) =
     Finite (1351079888211149 / 4503599627370496) \<and>
   expenses (fetchMonthlyData utc_november (ledger [coffee, bread]) initial_balance_summary) \<noteq>
     Finite (3 / 10) \<and>
   expenses (fetchMonthlyData utc_november (ledger [coffee, bread]) initial_balance_summary) \<noteq>
     to_double (3 / 10) \<and>
   balance (fetchMonthlyData utc_november (ledger [coffee, bread]) initial_balance_summary) =
     Finite (- (1351079888211149 / 4503599627370496)) \<and>
   balance (fetchMonthlyData utc_november (ledger [coffee, bread]) initial_balance_summary) \<noteq>
     Finite (0 - 3 / 10)"
proof -
  have user: "session_user utc_november = Some ''u1''"
    by (simp add: utc_november_def)
  have rows: "monthly_rows utc_november ''u1'' (ledger [coffee, bread]) = [coffee, bread]"
    by (simp add: monthly_rows_def select_transactions_def inputs_eval calendar_eval)
  have amounts: "map amount (filter (\<lambda>t. t_type t = Expense) [coffee, bread]) = [1 / 10, 1 / 5]"
    "map amount (filter (\<lambda>t. t_type t = Income) [coffee, bread]) = []"
    by (simp_all add: coffee_def bread_def)
  have "monthly_totals (Some [coffee, bread]) =
      \<lparr>income = Finite 0, expenses = Finite (1351079888211149 / 4503599627370496)\<rparr>"
    unfolding monthly_totals_def total_of_type_rounded amounts rounded_sum_cents Let_def
    by (simp add: rounded_sum_def or_zero_def)
  with user have totals:
    "fetchMonthlyData utc_november (ledger [coffee, bread]) initial_balance_summary =
      \<lparr>income = Finite 0, expenses = Finite (1351079888211149 / 4503599627370496)\<rparr>"
    by (simp add: fetchMonthlyData_def rows)
  have neg: "to_double (- (1351079888211149 / 4503599627370496)) =
      Finite (- (1351079888211149 / 4503599627370496))"
    by (simp add: double_eval)
  have listed: "map amount (filter (\<lambda>t. t_type t = Expense) [coffee, bread]) = [1 / 10, 2 / 10]"
    and total: "sum_list (map amount (filter (\<lambda>t. t_type t = Expense) [coffee, bread])) = 3 / 10"
    by (simp_all add: coffee_def bread_def)
  let ?st = "fetchMonthlyData utc_november (ledger [coffee, bread]) initial_balance_summary"
  have spent: "expenses ?st = Finite (1351079888211149 / 4503599627370496)"
    and more: "expenses ?st \<noteq> Finite (3 / 10)"
    and nearest: "expenses ?st \<noteq> to_double (3 / 10)"
    by (simp_all add: totals to_double_cents)
  have left: "balance ?st = Finite (- (1351079888211149 / 4503599627370496))"
    by (simp add: totals balance_def number_sub_def neg)
  then have less: "balance ?st \<noteq> Finite (0 - 3 / 10)"
    by simp
  from rows listed total spent more nearest left less show ?thesis
    by blast
qed

section \<open>C5: recurrence day of a written transaction\<close>

text \<open>
  C5, as the code has it. In every body the transaction form sends, and in every row
  its submit adds to the table or changes there, \<^verbatim>\<open>recurrence_day\<close> is null when
  \<^verbatim>\<open>is_recurring\<close> is false, and a non-null \<^verbatim>\<open>recurrence_day\<close> of a row comes
  with \<^verbatim>\<open>is_recurring = true\<close> and lies in 1 to 31 (the table's check constraint
  refuses the others). The body's \<^verbatim>\<open>recurrence_day\<close> is the integer read from the
  day field when the box is ticked and the field is not empty, and null otherwise.
\<close>

theorem recurrence_day_only_when_recurring:
  "(\<forall>td \<in> set (written (calls (handleSubmit e f d))).
      td_is_recurring td = isRecurring f \<and>
      td_recurrence_day td =
        (if isRecurring f \<and> recurrenceDay f \<noteq> [] then parseInt (recurrenceDay f) else None) \<and>
      (td_is_recurring td = False \<longrightarrow> td_recurrence_day td = None)) \<and>
   (\<forall>r \<in> set (transactions_tbl (db_after (handleSubmit e f d))).
      r \<in> set (transactions_tbl d) \<or>
      ((is_recurring r = False \<longrightarrow> recurrence_day r = None) \<and>
       (case recurrence_day r of None \<Rightarrow> True | Some n \<Rightarrow> is_recurring r = True \<and> 1 \<le> n \<and> n \<le> 31)))"
proof -
  have a: "\<forall>td \<in> set (written (calls (handleSubmit e f d))).
      td_is_recurring td = isRecurring f \<and>
      td_recurrence_day td =
        (if isRecurring f \<and> recurrenceDay f \<noteq> [] then parseInt (recurrenceDay f) else None) \<and>
      (td_is_recurring td = False \<longrightarrow> td_recurrence_day td = None)"
    by (auto dest!: written_handleSubmit simp: build_recurrence_day)
  have b: "\<forall>r \<in> set (transactions_tbl (db_after (handleSubmit e f d))).
      r \<in> set (transactions_tbl d) \<or>
      ((is_recurring r = False \<longrightarrow> recurrence_day r = None) \<and>
       (case recurrence_day r of None \<Rightarrow> True | Some n \<Rightarrow> is_recurring r = True \<and> 1 \<le> n \<and> n \<le> 31))"
  proof
    fix r
    assume r: "r \<in> set (transactions_tbl (db_after (handleSubmit e f d)))"
    show "r \<in> set (transactions_tbl d) \<or>
      ((is_recurring r = False \<longrightarrow> recurrence_day r = None) \<and>
       (case recurrence_day r of None \<Rightarrow> True | Some n \<Rightarrow> is_recurring r = True \<and> 1 \<le> n \<and> n \<le> 31))"
    proof (cases "r \<in> set (transactions_tbl d)")
      case True
      then show ?thesis by simp
    next
      case False
      from rows_handleSubmit [OF r False] obtain uid where
        ok: "check_transaction (session_user e) d (build_transactionData e uid f) = None"
        and rec: "is_recurring r = td_is_recurring (build_transactionData e uid f)"
        and day: "recurrence_day r = td_recurrence_day (build_transactionData e uid f)"
        by blast
      from check_transaction_recurrence_day [OF ok] rec day
      show ?thesis
        by (auto simp: build_recurrence_day recurrence_day_check_def split: option.splits if_splits)
    qed
  qed
  from a b show ?thesis by simp
qed

text \<open>The theorem at a recurring expense on day 5, saved into an empty table.\<close>

theorem recurrence_day_only_when_recurring_witness:
  "written (calls (handleSubmit brasilia_october recurring_on_day_5 (ledger []))) =
     [build_transactionData brasilia_october ''u1'' recurring_on_day_5] \<and>
   td_is_recurring (build_transactionData brasilia_october ''u1'' recurring_on_day_5) = True \<and>
   td_recurrence_day (build_transactionData brasilia_october ''u1'' recurring_on_day_5) = Some 5 \<and>
   map is_recurring (transactions_tbl (db_after
       (handleSubmit brasilia_october recurring_on_day_5 (ledger [])))) = [True] \<and>
   map recurrence_day (transactions_tbl (db_after
       (handleSubmit brasilia_october recurring_on_day_5 (ledger [])))) = [Some 5] \<and>
   (case recurrence_day (last (transactions_tbl (db_after
            (handleSubmit brasilia_october recurring_on_day_5 (ledger []))))) of
      None \<Rightarrow> True
    | Some n \<Rightarrow>
        is_recurring (last (transactions_tbl (db_after
            (handleSubmit brasilia_october recurring_on_day_5 (ledger []))))) = True \<and>
        1 \<le> n \<and> n \<le> 31)"
proof -
  let ?out = "handleSubmit brasilia_october recurring_on_day_5 (ledger [])"
  let ?td = "build_transactionData brasilia_october ''u1'' recurring_on_day_5"
  have day: "parseInt ''5'' = Some 5"
    by (simp add: text_eval)
  have sent: "written (calls ?out) = [?td]"
    by (simp add: handleSubmit_def insert_transaction_def check_transaction_def
        build_transactionData_def recurrence_day_check_def category_exists_def
        recurring_on_day_5_def blank_form_def brasilia_october_def ledger_def
        parseFloat_100 day)
  have rows: "map is_recurring (transactions_tbl (db_after ?out)) = [True]"
    "map recurrence_day (transactions_tbl (db_after ?out)) = [Some 5]"
    by (simp_all add: handleSubmit_def insert_transaction_def check_transaction_def
        build_transactionData_def recurrence_day_check_def category_exists_def
        recurring_on_day_5_def blank_form_def brasilia_october_def ledger_def
        parseFloat_100 day)
  then have row: "last (transactions_tbl (db_after ?out)) \<in> set (transactions_tbl (db_after ?out))"
    and fresh: "last (transactions_tbl (db_after ?out)) \<notin> set (transactions_tbl (ledger []))"
    by (auto simp: ledger_def)
  note inst = recurrence_day_only_when_recurring [of brasilia_october recurring_on_day_5 "ledger []"]
  from inst sent have a: "td_is_recurring ?td = isRecurring recurring_on_day_5"
    "td_recurrence_day ?td =
       (if isRecurring recurring_on_day_5 \<and> recurrenceDay recurring_on_day_5 \<noteq> []
        then parseInt (recurrenceDay recurring_on_day_5) else None)"
    by simp_all
  from a have b: "td_is_recurring ?td = True" "td_recurrence_day ?td = Some 5"
    by (simp_all add: recurring_on_day_5_def blank_form_def day)
  from inst row fresh have c:
    "case recurrence_day (last (transactions_tbl (db_after ?out))) of
       None \<Rightarrow> True
     | Some n \<Rightarrow> is_recurring (last (transactions_tbl (db_after ?out))) = True \<and> 1 \<le> n \<and> n \<le> 31"
    by blast
  from sent b rows c show ?thesis by blast
qed

text \<open>
  C5 as stated fails: the day field is optional (it is not a required input, and the
  body has \<^verbatim>\<open>isRecurring && recurrenceDay ? parseInt(recurrenceDay) : null\<close>), so a
  form with the box ticked and the day left empty is saved with
  \<^verbatim>\<open>is_recurring = true\<close> and a null \<^verbatim>\<open>recurrence_day\<close>.
\<close>

theorem recurring_saved_without_day:
  "isRecurring recurring_without_day = True \<and> recurrenceDay recurring_without_day = [] \<and>
   map td_is_recurring
     (written (calls (handleSubmit brasilia_october recurring_without_day (ledger [])))) = [True] \<and>
   map td_recurrence_day
     (written (calls (handleSubmit brasilia_october recurring_without_day (ledger [])))) = [None] \<and>
   map is_recurring (transactions_tbl (db_after
     (handleSubmit brasilia_october recurring_without_day (ledger [])))) = [True] \<and>
   map recurrence_day (transactions_tbl (db_after
     (handleSubmit brasilia_october recurring_without_day (ledger [])))) = [None] \<and>
   toasts (handleSubmit brasilia_october recurring_without_day (ledger [])) =
     [success_transaction_added]"
  by (simp add: handleSubmit_def insert_transaction_def check_transaction_def
      build_transactionData_def recurrence_day_check_def category_exists_def
      recurring_without_day_def blank_form_def brasilia_october_def ledger_def parseFloat_100)

section \<open>C6: pending summary\<close>

text \<open>
  C6, as the code has it. The pending summary is computed from all of the user's
  transactions with status pending: its expense total is the sum of the pending expense
  amounts taken in the arithmetic of doubles (from zero, in the order of the rows, each
  amount read as the nearest double and each addition rounded to the nearest double),
  its income total the same sum over the pending income amounts, and its count the
  number of pending transactions of either type. Where every amount and every partial
  sum of a type is a double, the total of that type is the exact sum of the amounts. The
  dates play no part, so the summary is the same whatever the dates of the stored
  transactions are.
\<close>

theorem pending_summary_in_double_arithmetic:
  assumes "session_user e = Some uid"
  shows "fetchPendingTransactions e d st =
           \<lparr>totalExpenses =
              or_zero (rounded_sum (map amount
                (filter (\<lambda>t. user_id t = uid \<and> status t = Pending \<and> t_type t = Expense)
                   (transactions_tbl d)))),
            totalIncome =
              or_zero (rounded_sum (map amount
                (filter (\<lambda>t. user_id t = uid \<and> status t = Pending \<and> t_type t = Income)
                   (transactions_tbl d)))),
            count =
              length (filter (\<lambda>t. user_id t = uid \<and> status t = Pending) (transactions_tbl d))\<rparr> \<and>
         (sums_exact (map amount
            (filter (\<lambda>t. user_id t = uid \<and> status t = Pending \<and> t_type t = Expense)
               (transactions_tbl d))) \<longrightarrow>
          totalExpenses (fetchPendingTransactions e d st) =
            Finite (sum_list (map amount
              (filter (\<lambda>t. user_id t = uid \<and> status t = Pending \<and> t_type t = Expense)
                 (transactions_tbl d))))) \<and>
         (sums_exact (map amount
            (filter (\<lambda>t. user_id t = uid \<and> status t = Pending \<and> t_type t = Income)
               (transactions_tbl d))) \<longrightarrow>
          totalIncome (fetchPendingTransactions e d st) =
            Finite (sum_list (map amount
              (filter (\<lambda>t. user_id t = uid \<and> status t = Pending \<and> t_type t = Income)
                 (transactions_tbl d))))) \<and>
         fetchPendingTransactions e
           (d\<lparr>transactions_tbl := map (\<lambda>t. t\<lparr>date := g t\<rparr>) (transactions_tbl d)\<rparr>) st =
         fetchPendingTransactions e d st"
proof -
  have sel: "\<And>Q. filter Q (pending_rows e uid d) =
      filter (\<lambda>t. user_id t = uid \<and> status t = Pending \<and> Q t) (transactions_tbl d)"
    using assms by (auto simp: pending_rows_def filter_select_transactions intro: filter_cong)
  have rows: "pending_rows e uid d =
      filter (\<lambda>t. user_id t = uid \<and> status t = Pending) (transactions_tbl d)"
    using sel [of "\<lambda>t. True"] by simp
  have first: "fetchPendingTransactions e d st =
           \<lparr>totalExpenses =
              or_zero (rounded_sum (map amount
                (filter (\<lambda>t. user_id t = uid \<and> status t = Pending \<and> t_type t = Expense)
                   (transactions_tbl d)))),
            totalIncome =
              or_zero (rounded_sum (map amount
                (filter (\<lambda>t. user_id t = uid \<and> status t = Pending \<and> t_type t = Income)
                   (transactions_tbl d)))),
            count =
              length (filter (\<lambda>t. user_id t = uid \<and> status t = Pending) (transactions_tbl d))\<rparr>"
    using assms
    by (simp add: fetchPendingTransactions_def pending_totals_def total_of_type_rounded sel)
       (simp add: rows)
  have exact: "sums_exact (map amount (filter P (transactions_tbl d))) \<Longrightarrow>
      or_zero (rounded_sum (map amount (filter P (transactions_tbl d)))) =
      Finite (sum_list (map amount (filter P (transactions_tbl d))))" for P
    by (rule rounded_sum_exact)
  have dates: "fetchPendingTransactions e
           (d\<lparr>transactions_tbl := map (\<lambda>t. t\<lparr>date := g t\<rparr>) (transactions_tbl d)\<rparr>) st =
         fetchPendingTransactions e d st"
    using assms
    by (simp add: fetchPendingTransactions_def pending_totals_def total_of_type_def
        pending_rows_def select_transactions_def filter_map comp_def foldl_rounded_sum)
  show ?thesis
    using dates exact by (simp add: first)
qed

text \<open>
  The theorem at a store whose only pending transaction is a bonus of 500 dated in
  January 2026, seen from November 2025.
\<close>

theorem pending_summary_in_double_arithmetic_witness:
  "session_user brasilia_november = Some ''u1'' \<and>
   sums_exact (map amount
     (filter (\<lambda>t. user_id t = ''u1'' \<and> status t = Pending \<and> t_type t = Expense)
        (transactions_tbl (ledger [salary, groceries, rent, bonus])))) \<and>
   sums_exact (map amount
     (filter (\<lambda>t. user_id t = ''u1'' \<and> status t = Pending \<and> t_type t = Income)
        (transactions_tbl (ledger [salary, groceries, rent, bonus])))) \<and>
   fetchPendingTransactions brasilia_november (ledger [salary, groceries, rent, bonus])
     \<lparr>totalExpenses = Finite 0, totalIncome = Finite 0, count = 0\<rparr> =
     \<lparr>totalExpenses = Finite 0, totalIncome = Finite 500, count = 1\<rparr> \<and>
   fetchPendingTransactions brasilia_november
     ((ledger [salary, groceries, rent, bonus])
        \<lparr>transactions_tbl := map (\<lambda>t. t\<lparr>date := 0\<rparr>)
           (transactions_tbl (ledger [salary, groceries, rent, bonus]))\<rparr>)
     \<lparr>totalExpenses = Finite 0, totalIncome = Finite 0, count = 0\<rparr> =
     \<lparr>totalExpenses = Finite 0, totalIncome = Finite 500, count = 1\<rparr>"
proof -
  let ?d = "ledger [salary, groceries, rent, bonus]"
  let ?st = "\<lparr>totalExpenses = Finite 0, totalIncome = Finite 0, count = 0\<rparr>"
  have user: "session_user brasilia_november = Some ''u1''"
    by (simp add: brasilia_november_def)
  have rows:
    "map amount (filter (\<lambda>t. user_id t = ''u1'' \<and> status t = Pending \<and> t_type t = Expense)
        (transactions_tbl ?d)) = []"
    "map amount (filter (\<lambda>t. user_id t = ''u1'' \<and> status t = Pending \<and> t_type t = Income)
        (transactions_tbl ?d)) = [500]"
    "length (filter (\<lambda>t. user_id t = ''u1'' \<and> status t = Pending) (transactions_tbl ?d)) = 1"
    by (simp_all add: ledger_def salary_def groceries_def rent_def bonus_def)
  have exact: "sums_exact []" "sums_exact [500]"
    by (simp_all add: sums_exact_def to_double_amounts)
  note inst = pending_summary_in_double_arithmetic [OF user, of ?d ?st "\<lambda>t. 0", unfolded rows]
  from inst have a: "sums_exact [] \<longrightarrow>
      totalExpenses (fetchPendingTransactions brasilia_november ?d ?st) = Finite (sum_list [])"
    and b: "sums_exact [500] \<longrightarrow>
      totalIncome (fetchPendingTransactions brasilia_november ?d ?st) = Finite (sum_list [500])"
    and c: "fetchPendingTransactions brasilia_november ?d ?st =
      \<lparr>totalExpenses = or_zero (rounded_sum []), totalIncome = or_zero (rounded_sum [500]),
       count = 1\<rparr>"
    and dates: "fetchPendingTransactions brasilia_november
     (?d\<lparr>transactions_tbl := map (\<lambda>t. t\<lparr>date := 0\<rparr>) (transactions_tbl ?d)\<rparr>) ?st =
     fetchPendingTransactions brasilia_november ?d ?st"
    by blast+
  from a b exact have totals:
    "totalExpenses (fetchPendingTransactions brasilia_november ?d ?st) = Finite 0"
    "totalIncome (fetchPendingTransactions brasilia_november ?d ?st) = Finite 500"
    by simp_all
  from c have "count (fetchPendingTransactions brasilia_november ?d ?st) = 1"
    by simp
  with totals have summary: "fetchPendingTransactions brasilia_november ?d ?st =
      \<lparr>totalExpenses = Finite 0, totalIncome = Finite 500, count = 1\<rparr>"
    by (cases "fetchPendingTransactions brasilia_november ?d ?st") simp
  from user exact summary dates show ?thesis
    by (simp only: rows)
qed

text \<open>
  C6 as stated fails, since the totals are sums of doubles: with two pending expenses of
  0.10 and 0.20, whose amounts add up to 0.30, the summary's expense total is
  \<^verbatim>\<open>0.1 + 0.2 = 0.30000000000000004\<close>, which is neither 3/10 nor the double nearest
  to it.
\<close>

theorem pending_expenses_of_ten_and_twenty_cents:
  "pending_rows utc_november ''u1'' (ledger [salary, coffee, bread]) = [coffee, bread] \<and>
   map amount (filter (\<lambda>t. t_type t = Expense) [coffee, bread]) = [1 / 10, 2 / 10] \<and>
   sum_list (map amount (filter (\<lambda>t. t_type t = Expense) [coffee, bread])) = 3 / 10 \<and>
   fetchPendingTransactions utc_november (ledger [salary, coffee, bread])
     \<lparr>totalExpenses = Finite 0, totalIncome = Finite 0, count = 0\<rparr> =
     \<lparr>totalExpenses = Finite (1351079888211149 / 4503599627370496), totalIncome = Finite 0,
      count = 2\<rparr> \<and>
   Finite (1351079888211149 / 4503599627370496) \<noteq> Finite (3 / 10) \<and>
   Finite (1351079888211149 / 4503599627370496) \<noteq> to_double (3 / 10)"
proof -
  have user: "session_user utc_november = Some ''u1''"
    by (simp add: utc_november_def)
  have rows: "pending_rows utc_november ''u1'' (ledger [salary, coffee, bread]) = [coffee, bread]"
    by (simp add: pending_rows_def select_transactions_def inputs_eval)
  have amounts: "map amount (filter (\<lambda>t. t_type t = Expense) [coffee, bread]) = [1 / 10, 1 / 5]"
    "map amount (filter (\<lambda>t. t_type t = Income) [coffee, bread]) = []"
    by (simp_all add: coffee_def bread_def)
  have "pending_totals (Some [coffee, bread]) =
      \<lparr>totalExpenses = Finite (1351079888211149 / 4503599627370496), totalIncome = Finite 0,
       count = 2\<rparr>"
    unfolding pending_totals_def total_of_type_rounded amounts rounded_sum_cents Let_def
    by (simp add: rounded_sum_def or_zero_def)
  with user have summary:
    "fetchPendingTransactions utc_november (ledger [salary, coffee, bread])
       \<lparr>totalExpenses = Finite 0, totalIncome = Finite 0, count = 0\<rparr> =
     \<lparr>totalExpenses = Finite (1351079888211149 / 4503599627370496), totalIncome = Finite 0,
      count = 2\<rparr>"
    by (simp add: fetchPendingTransactions_def rows)
  have listed: "map amount (filter (\<lambda>t. t_type t = Expense) [coffee, bread]) = [1 / 10, 2 / 10]"
    and total: "sum_list (map amount (filter (\<lambda>t. t_type t = Expense) [coffee, bread])) = 3 / 10"
    by (simp_all add: coffee_def bread_def)
  have more: "Finite (1351079888211149 / 4503599627370496) \<noteq> Finite (3 / 10)"
    and nearest: "Finite (1351079888211149 / 4503599627370496) \<noteq> to_double (3 / 10)"
    by (simp_all add: to_double_cents)
  from rows listed total summary more nearest show ?thesis
    by blast
qed

section \<open>C7: validation before any store call\<close>

text \<open>
  C7. A submit of the transaction form with an empty amount, or with an amount that
  \<^verbatim>\<open>parseFloat\<close> reads as zero or less, and a submit of the category form with a name
  that is empty after trimming, send no call to the store and leave it as it was; the
  only effect is the notice.
\<close>

theorem invalid_submission_sends_nothing:
  "(amount_field f = [] \<or> number_le_zero (parseFloat (amount_field f)) \<longrightarrow>
      handleSubmit e f d = \<lparr>db_after = d, calls = [], toasts = [error_invalid_amount]\<rparr>) \<and>
   (trim (name (formData p)) = [] \<longrightarrow>
      Categories_handleSubmit e p d = \<lparr>db_after = d, calls = [], toasts = [error_category_name]\<rparr>)"
  by (simp add: handleSubmit_def Categories_handleSubmit_def)

text \<open>The theorem at an empty amount, at the amount \<^verbatim>\<open>-5\<close> and at a name of blanks.\<close>

theorem invalid_submission_sends_nothing_witness:
  "amount_field blank_form = [] \<and>
   handleSubmit utc_november blank_form (ledger [salary]) =
     \<lparr>db_after = ledger [salary], calls = [], toasts = [error_invalid_amount]\<rparr> \<and>
   number_le_zero (parseFloat (amount_field negative_amount)) \<and>
   handleSubmit utc_november negative_amount (ledger [salary]) =
     \<lparr>db_after = ledger [salary], calls = [], toasts = [error_invalid_amount]\<rparr> \<and>
   trim (name (formData blank_name)) = [] \<and>
   Categories_handleSubmit utc_november blank_name (ledger [salary]) =
     \<lparr>db_after = ledger [salary], calls = [], toasts = [error_category_name]\<rparr>"
proof -
  have missing: "amount_field blank_form = []"
    by (simp add: blank_form_def)
  have negative: "number_le_zero (parseFloat (amount_field negative_amount))"
    by (simp add: negative_amount_def blank_form_def parseFloat_minus_5)
  have blank: "trim (name (formData blank_name)) = []"
    by (simp add: blank_name_def trim_def is_space_def)
  from invalid_submission_sends_nothing [of blank_form utc_november "ledger [salary]" blank_name]
    missing blank
  have a: "handleSubmit utc_november blank_form (ledger [salary]) =
       \<lparr>db_after = ledger [salary], calls = [], toasts = [error_invalid_amount]\<rparr>"
    and c: "Categories_handleSubmit utc_november blank_name (ledger [salary]) =
       \<lparr>db_after = ledger [salary], calls = [], toasts = [error_category_name]\<rparr>"
    by blast+
  from invalid_submission_sends_nothing [of negative_amount utc_november "ledger [salary]" blank_name]
    negative
  have b: "handleSubmit utc_november negative_amount (ledger [salary]) =
       \<lparr>db_after = ledger [salary], calls = [], toasts = [error_invalid_amount]\<rparr>"
    by blast
  from missing negative blank a b c show ?thesis by blast
qed

section \<open>C8: deleting a category\<close>

text \<open>
  C8, as the code has it. When the signed-in user deletes one of their categories, no
  transaction is deleted: the table holds the same transactions in the same order. Each
  one that referred to the category has \<^verbatim>\<open>category_id\<close> null and
  \<^verbatim>\<open>updated_at\<close> set to the time of the deletion, since \<^verbatim>\<open>ON DELETE SET NULL\<close>
  is an update of the row and the trigger \<^verbatim>\<open>update_transactions_updated_at\<close> runs
  before every update; its owner, description, amount, type, date, creation time,
  \<^verbatim>\<open>is_recurring\<close>, \<^verbatim>\<open>recurrence_day\<close> and status are as they were. The
  transactions that did not refer to the category are unchanged, and so are the
  attachments.
\<close>

theorem category_delete_nulls_references_and_touches_updated_at:
  assumes "list_ex (\<lambda>c. c_id c = i \<and> Some (c_user_id c) = session_user e) (categories_tbl d)"
  shows "transactions_tbl (db_after (handleDelete e True i d)) =
           map (\<lambda>t. if category_id t = Some i
                     then t\<lparr>category_id := None, updated_at := Date_now e\<rparr> else t)
             (transactions_tbl d) \<and>
         map t_id (transactions_tbl (db_after (handleDelete e True i d))) =
           map t_id (transactions_tbl d) \<and>
         map category_id (transactions_tbl (db_after (handleDelete e True i d))) =
           map (\<lambda>t. if category_id t = Some i then None else category_id t)
             (transactions_tbl d) \<and>
         map updated_at (transactions_tbl (db_after (handleDelete e True i d))) =
           map (\<lambda>t. if category_id t = Some i then Date_now e else updated_at t)
             (transactions_tbl d) \<and>
         map (\<lambda>t. (user_id t, description t, amount t, t_type t, date t, created_at t,
                    is_recurring t, recurrence_day t, status t))
             (transactions_tbl (db_after (handleDelete e True i d))) =
           map (\<lambda>t. (user_id t, description t, amount t, t_type t, date t, created_at t,
                      is_recurring t, recurrence_day t, status t))
             (transactions_tbl d) \<and>
         attachments_tbl (db_after (handleDelete e True i d)) = attachments_tbl d \<and>
         \<not> list_ex (\<lambda>c. c_id c = i \<and> Some (c_user_id c) = session_user e)
             (categories_tbl (db_after (handleDelete e True i d))) \<and>
         calls (handleDelete e True i d) = [delete_categories i]"
  using assms
  by (simp add: handleDelete_def delete_category_set_null comp_def list_ex_iff
      cong: map_cong)

text \<open>The theorem at the deletion of the category of the groceries.\<close>

theorem category_delete_nulls_references_and_touches_updated_at_witness:
  "list_ex (\<lambda>c. c_id c = 2 \<and> Some (c_user_id c) = session_user utc_november)
     (categories_tbl (ledger [salary, groceries, rent])) \<and>
   category_id groceries = Some 2 \<and>
   transactions_tbl (db_after (handleDelete utc_november True 2 (ledger [salary, groceries, rent]))) =
     [salary, groceries\<lparr>category_id := None, updated_at := Date_now utc_november\<rparr>, rent] \<and>
   map t_id (transactions_tbl (db_after (handleDelete utc_november True 2
       (ledger [salary, groceries, rent])))) =
     map t_id (transactions_tbl (ledger [salary, groceries, rent])) \<and>
   map amount (transactions_tbl (db_after (handleDelete utc_november True 2
       (ledger [salary, groceries, rent])))) = [3000, 401 / 2, 1000]"
proof -
  let ?d = "ledger [salary, groceries, rent]"
  have owned: "list_ex (\<lambda>c. c_id c = 2 \<and> Some (c_user_id c) = session_user utc_november)
     (categories_tbl ?d)"
    by (simp add: ledger_def food_def wages_def utc_november_def)
  have ref: "category_id groceries = Some 2"
    by (simp add: groceries_def)
  have upd: "map (\<lambda>t. if category_id t = Some 2
        then t\<lparr>category_id := None, updated_at := Date_now utc_november\<rparr> else t)
      (transactions_tbl ?d) =
      [salary, groceries\<lparr>category_id := None, updated_at := Date_now utc_november\<rparr>, rent]"
    by (simp add: ledger_def salary_def groceries_def rent_def)
  note inst = category_delete_nulls_references_and_touches_updated_at [OF owned]
  from inst have a: "transactions_tbl (db_after (handleDelete utc_november True 2 ?d)) =
     [salary, groceries\<lparr>category_id := None, updated_at := Date_now utc_november\<rparr>, rent]"
    by (simp only: upd)
  from inst have b: "map t_id (transactions_tbl (db_after (handleDelete utc_november True 2 ?d))) =
     map t_id (transactions_tbl ?d)"
    by blast
  from a have c: "map amount (transactions_tbl (db_after (handleDelete utc_november True 2 ?d))) =
     [3000, 401 / 2, 1000]"
    by (simp add: salary_def groceries_def rent_def)
  from owned ref a b c show ?thesis by blast
qed

text \<open>
  C8 as stated fails for the table that has the column \<^verbatim>\<open>updated_at\<close>: after the
  deletion of the category of the groceries at noon of 2025-11-10, the groceries have a
  null \<^verbatim>\<open>category_id\<close> and, besides, an \<^verbatim>\<open>updated_at\<close> moved from its old
  value to the time of the deletion.
\<close>

theorem category_delete_refreshes_updated_at:
  "category_id groceries = Some 2 \<and> updated_at groceries = 0 \<and>
   Date_now utc_november = 1762776000000 \<and>
   transactions_tbl (db_after (handleDelete utc_november True 2 (ledger [salary, groceries, rent]))) =
     [salary, groceries\<lparr>category_id := None, updated_at := 1762776000000\<rparr>, rent] \<and>
   map updated_at (transactions_tbl (ledger [salary, groceries, rent])) = [0, 0, 0] \<and>
   map updated_at (transactions_tbl (db_after
     (handleDelete utc_november True 2 (ledger [salary, groceries, rent])))) =
     [0, 1762776000000, 0] \<and>
   groceries\<lparr>category_id := None, updated_at := 1762776000000\<rparr> \<noteq>
     groceries\<lparr>category_id := None\<rparr>"
  by (simp add: handleDelete_def delete_category_def transactions_category_id_on_delete_def
      Let_def inputs_eval calendar_eval)

section \<open>C9: attachment size limit\<close>

text \<open>
  C9. A file of more than 10 * 1024 * 1024 bytes is rejected when it is picked: the
  form is left as it was, so an upload after it does what it would have done before, and
  the handler has no access to the store. A file of at most that size becomes the chosen
  file. Hence, as long as the form's chosen file is within the limit, it stays so, and
  every blob and every attachment row an upload adds is within the limit.
\<close>

theorem oversized_file_is_rejected:
  "(f_size fl > 10 * 1024 * 1024 \<longrightarrow>
      handleFileSelect (Some fl) f = (f, [error_file_too_large]) \<and>
      handleUploadAttachment e (fst (handleFileSelect (Some fl) f)) d =
        handleUploadAttachment e f d) \<and>
   (f_size fl \<le> 10 * 1024 * 1024 \<longrightarrow>
      handleFileSelect (Some fl) f = (f\<lparr>selectedFile := Some fl\<rparr>, [])) \<and>
   (selection_ok f \<longrightarrow>
      selection_ok (fst (handleFileSelect file f)) \<and>
      (\<forall>b \<in> set (bucket (db_after (snd (handleUploadAttachment e
                    (fst (handleFileSelect file f)) d)))).
          b \<in> set (bucket d) \<or> size_ok (snd b)) \<and>
      (\<forall>n \<in> set (map file_size (attachments_tbl (db_after (snd (handleUploadAttachment e
                    (fst (handleFileSelect file f)) d))))).
          n \<in> set (map file_size (attachments_tbl d)) \<or> n \<le> 10 * 1024 * 1024))"
proof -
  have keep: "selection_ok f \<Longrightarrow> selection_ok (fst (handleFileSelect file f))"
    by (auto simp: handleFileSelect_def selection_ok_def size_ok_def split: option.splits)
  have blobs: "selection_ok f \<Longrightarrow>
      \<forall>b \<in> set (bucket (db_after (snd (handleUploadAttachment e
                    (fst (handleFileSelect file f)) d)))).
          b \<in> set (bucket d) \<or> size_ok (snd b)"
    using upload_blobs [of e "fst (handleFileSelect file f)" d] keep
    by (auto simp: selection_ok_def split: option.splits)
  have rows: "selection_ok f \<Longrightarrow>
      \<forall>n \<in> set (map file_size (attachments_tbl (db_after (snd (handleUploadAttachment e
                    (fst (handleFileSelect file f)) d))))).
          n \<in> set (map file_size (attachments_tbl d)) \<or> n \<le> 10 * 1024 * 1024"
    using upload_rows [of e "fst (handleFileSelect file f)" d] keep
    by (auto simp: selection_ok_def size_ok_def split: option.splits)
  show ?thesis
    using keep blobs rows by (simp add: handleFileSelect_def)
qed

text \<open>The theorem at a photo of 11 MB and at a receipt of 2 MB, which is then uploaded.\<close>

theorem oversized_file_is_rejected_witness:
  "f_size big_photo > 10 * 1024 * 1024 \<and>
   handleFileSelect (Some big_photo) editing_rent = (editing_rent, [error_file_too_large]) \<and>
   handleUploadAttachment utc_november (fst (handleFileSelect (Some big_photo) editing_rent))
       (ledger [rent]) =
     handleUploadAttachment utc_november editing_rent (ledger [rent]) \<and>
   f_size receipt \<le> 10 * 1024 * 1024 \<and>
   handleFileSelect (Some receipt) editing_rent =
     (editing_rent\<lparr>selectedFile := Some receipt\<rparr>, []) \<and>
   selection_ok editing_rent \<and>
   selection_ok (fst (handleFileSelect (Some receipt) editing_rent)) \<and>
   map snd (bucket (db_after (snd (handleUploadAttachment utc_november
       (fst (handleFileSelect (Some receipt) editing_rent)) (ledger [rent]))))) = [receipt] \<and>
   size_ok receipt"
proof -
  let ?up = "handleUploadAttachment utc_november
       (fst (handleFileSelect (Some receipt) editing_rent)) (ledger [rent])"
  have big: "f_size big_photo > 10 * 1024 * 1024"
    by (simp add: big_photo_def)
  have small: "f_size receipt \<le> 10 * 1024 * 1024"
    by (simp add: receipt_def)
  have ok: "selection_ok editing_rent"
    by (simp add: selection_ok_def editing_rent_def blank_form_def)
  note large = oversized_file_is_rejected [of big_photo editing_rent utc_november "ledger [rent]"
      "Some receipt"]
  note fits = oversized_file_is_rejected [of receipt editing_rent utc_november "ledger [rent]"
      "Some receipt"]
  from large big have a:
    "handleFileSelect (Some big_photo) editing_rent = (editing_rent, [error_file_too_large])"
    "handleUploadAttachment utc_november (fst (handleFileSelect (Some big_photo) editing_rent))
       (ledger [rent]) =
     handleUploadAttachment utc_november editing_rent (ledger [rent])"
    by blast+
  from fits small have b:
    "handleFileSelect (Some receipt) editing_rent = (editing_rent\<lparr>selectedFile := Some receipt\<rparr>, [])"
    by blast
  from fits ok have c: "selection_ok (fst (handleFileSelect (Some receipt) editing_rent))"
    and blobs: "\<forall>b \<in> set (bucket (db_after (snd ?up))). b \<in> set (bucket (ledger [rent])) \<or> size_ok (snd b)"
    by blast+
  have stored: "map snd (bucket (db_after (snd ?up))) = [receipt]"
    by (simp add: handleUploadAttachment_def handleFileSelect_def storage_upload_blob_def
        insert_attachment_def Let_def editing_rent_def blank_form_def receipt_def rent_def
        ledger_def utc_november_def)
  then obtain p where p: "bucket (db_after (snd ?up)) = [(p, receipt)]"
    by (cases "bucket (db_after (snd ?up))") auto
  with blobs have "(p, receipt) \<in> set (bucket (ledger [rent])) \<or> size_ok (snd (p, receipt))"
    by simp
  then have d: "size_ok receipt"
    by (simp add: ledger_def)
  from big small ok a b c stored d show ?thesis by blast
qed

section \<open>C10: a virtual occurrence is its template but for the date\<close>



end
